theory Spec2Isabelle
  imports Complex_Main "HOL-Library.Sublist"
begin

section \<open>Numbers, points and errors\<close>

text \<open>
  The traffic core is JavaScript. Its numbers are modelled as reals: every comparison,
  sum, quotient, square root and remainder below is the exact one, so statements hold up
  to the rounding of the doubles the program runs on. Values that are not numbers
  (\<open>NaN\<close>, the infinities as inputs) are outside the model; \<open>Infinity\<close> as the
  starting value of a running minimum is an \<open>option\<close>.
\<close>

text \<open>
  The remainder operator \<open>a % b\<close> of JavaScript on finite numbers with \<open>b \<noteq> 0\<close>:
  the quotient is truncated towards zero, so the result carries the sign of \<open>a\<close>.
\<close>

definition js_rem :: "real \<Rightarrow> real \<Rightarrow> real" where
  "js_rem a b = a - b * of_int (if 0 \<le> a / b then \<lfloor>a / b\<rfloor> else \<lceil>a / b\<rceil>)"

text \<open>A point of the ground plane, the object \<open>{ x, z }\<close> of the source.\<close>

record Vec2 =
  pos_x :: real
  pos_z :: real

text \<open>
  Reading a property of \<open>undefined\<close> throws a \<open>TypeError\<close>; it is the only
  exception the modelled code can raise.
\<close>

datatype error = TypeError

section \<open>TrafficLight.js: one signal controller\<close>

datatype aspect = Red | Yellow | Green

datatype direction = North | South | East | West

record Phase =
  phase_name :: string
  duration :: real
  ns :: aspect
  ew :: aspect

text \<open>The phase table the constructor installs; no method changes it.\<close>

definition phases :: "Phase list" where
  "phases =
    [\<lparr>phase_name = ''NS_GREEN'', duration = 10, ns = Green, ew = Red\<rparr>,
     \<lparr>phase_name = ''NS_YELLOW'', duration = 2, ns = Yellow, ew = Red\<rparr>,
     \<lparr>phase_name = ''ALL_RED_1'', duration = 1, ns = Red, ew = Red\<rparr>,
     \<lparr>phase_name = ''EW_GREEN'', duration = 10, ns = Red, ew = Green\<rparr>,
     \<lparr>phase_name = ''EW_YELLOW'', duration = 2, ns = Red, ew = Yellow\<rparr>,
     \<lparr>phase_name = ''ALL_RED_2'', duration = 1, ns = Red, ew = Red\<rparr>]"

record Intersection =
  inter_id :: string
  inter_position :: Vec2
  hasTrafficLight :: bool
  connectedRoads :: "string list"
  inter_size :: real

text \<open>
  The fields of a \<open>TrafficLight\<close> that its logic reads and writes. The meshes and
  materials (\<open>create\<close>, \<open>updateLightColors\<close>, \<open>setLightState\<close>) only
  display \<open>phases[currentPhaseIndex]\<close> and are left out.
\<close>

record TrafficLight =
  intersection :: Intersection
  currentPhaseIndex :: nat
  phaseTimer :: real
  phaseOffset :: real

definition new_TrafficLight :: "Intersection \<Rightarrow> TrafficLight" where
  "new_TrafficLight i =
    \<lparr>intersection = i, currentPhaseIndex = 0, phaseTimer = 0, phaseOffset = 0\<rparr>"

text \<open>
  \<open>update(delta)\<close>. \<open>phases[currentPhaseIndex]\<close> is \<open>undefined\<close> for an index
  outside the table, and reading its \<open>duration\<close> throws.
\<close>

definition TrafficLight_update :: "real \<Rightarrow> TrafficLight \<Rightarrow> error + TrafficLight" where
  "TrafficLight_update delta l =
    (let l1 = l\<lparr>phaseTimer := phaseTimer l + delta\<rparr> in
     if currentPhaseIndex l1 < length phases then
       (let currentPhase = phases ! currentPhaseIndex l1 in
        if phaseTimer l1 \<ge> duration currentPhase
        then Inr (l1\<lparr>phaseTimer := 0,
                      currentPhaseIndex := (currentPhaseIndex l1 + 1) mod length phases\<rparr>)
        else Inr l1)
     else Inl TypeError)"

definition getState :: "direction \<Rightarrow> TrafficLight \<Rightarrow> error + aspect" where
  "getState d l =
    (if currentPhaseIndex l < length phases then
       (let phase = phases ! currentPhaseIndex l in
        if d = North \<or> d = South then Inr (ns phase) else Inr (ew phase))
     else Inl TypeError)"

definition getTotalCycleDuration :: real where
  "getTotalCycleDuration = foldl (\<lambda>sum p. sum + duration p) 0 phases"

text \<open>
  The \<open>for\<close> loop of \<open>setPhaseOffset\<close> over the phase table, from index \<open>i\<close>
  with \<open>elapsed\<close> seconds left: the index and the time of the phase the loop breaks
  at, or \<open>None\<close> when it runs off the table and assigns nothing.
\<close>

fun findPhase :: "Phase list \<Rightarrow> nat \<Rightarrow> real \<Rightarrow> (nat \<times> real) option" where
  "findPhase [] i elapsed = None"
| "findPhase (p # ps) i elapsed =
    (if elapsed < duration p then Some (i, elapsed)
     else findPhase ps (Suc i) (elapsed - duration p))"

definition setPhaseOffset :: "real \<Rightarrow> TrafficLight \<Rightarrow> TrafficLight" where
  "setPhaseOffset offset l =
    (let l1 = l\<lparr>phaseOffset := offset, phaseTimer := js_rem offset getTotalCycleDuration\<rparr> in
     case findPhase phases 0 (phaseTimer l1) of
       Some (i, elapsed) \<Rightarrow> l1\<lparr>currentPhaseIndex := i, phaseTimer := elapsed\<rparr>
     | None \<Rightarrow> l1)"

text \<open>
  A history of a controller: the calls made on it after construction, oldest first. An
  exception ends the history.
\<close>

datatype light_call = Update real | SetPhaseOffset real

fun light_calls :: "light_call list \<Rightarrow> TrafficLight \<Rightarrow> error + TrafficLight" where
  "light_calls [] l = Inr l"
| "light_calls (Update dt # cs) l =
    (case TrafficLight_update dt l of Inl e \<Rightarrow> Inl e | Inr l' \<Rightarrow> light_calls cs l')"
| "light_calls (SetPhaseOffset off # cs) l = light_calls cs (setPhaseOffset off l)"

section \<open>CityRoadNetwork.js: the road graph\<close>

text \<open>
  Template literals print the loop indices, which are natural numbers, in decimal.
\<close>

fun show_nat :: "nat \<Rightarrow> string" where
  "show_nat n =
    (if n < 10 then [''0123456789'' ! n]
     else show_nat (n div 10) @ [''0123456789'' ! (n mod 10)])"

text \<open>\<open>String.prototype.includes\<close>: the argument occurs as a contiguous substring.\<close>

fun str_includes :: "string \<Rightarrow> string \<Rightarrow> bool" where
  "str_includes [] sub = (sub = [])"
| "str_includes (c # cs) sub = (prefix sub (c # cs) \<or> str_includes cs sub)"

text \<open>\<open>Array.prototype.indexOf\<close>: the first index of the element, or \<open>-1\<close>.\<close>

fun indexOf :: "'a list \<Rightarrow> 'a \<Rightarrow> int" where
  "indexOf [] a = -1"
| "indexOf (b # bs) a =
    (if b = a then 0 else (let k = indexOf bs a in if k < 0 then -1 else k + 1))"

text \<open>The circular-arc fields that only the highway segments carry.\<close>

record Curve =
  curveCenter :: "Vec2 option"
  curveRadius :: real
  curveStartAngle :: real
  curveEndAngle :: real

record Segment =
  seg_id :: string
  seg_type :: string
  seg_start :: Vec2
  seg_end :: Vec2
  width :: real
  seg_lanes :: nat
  seg_speedLimit :: real
  isCurved :: bool
  curve :: "Curve option"
  controlPoint :: "Vec2 option"
  seg_direction :: string

record Waypoint =
  wp_id :: string
  wp_position :: Vec2
  wp_lane :: nat
  wp_segmentId :: string
  wp_direction :: int

record Lane =
  lane_id :: string
  lane_segmentId :: string
  laneIndex :: nat
  lane_direction :: int
  lane_speedLimit :: real
  lane_waypoints :: "string list"

record CityRoadNetwork =
  segments :: "Segment list"
  intersections :: "Intersection list"
  waypoints :: "string \<rightharpoonup> Waypoint"
  lanes :: "Lane list"

definition mainRoadWidth :: real where "mainRoadWidth = 10"
definition sideRoadWidth :: real where "sideRoadWidth = 6"
definition highwayWidth :: real where "highwayWidth = 14"
definition laneWidth :: real where "laneWidth = 2.5"

definition createMainRoads :: "Segment list" where
  "createMainRoads =
    map (\<lambda>(index, z).
          \<lparr>seg_id = ''main-h'' @ show_nat index, seg_type = ''main'',
           seg_start = \<lparr>pos_x = -120, pos_z = z\<rparr>, seg_end = \<lparr>pos_x = 120, pos_z = z\<rparr>,
           width = mainRoadWidth, seg_lanes = 4, seg_speedLimit = 50, isCurved = False,
           curve = None, controlPoint = None, seg_direction = ''horizontal''\<rparr>)
        (enumerate 0 [-80, 0, 80])
    @ map (\<lambda>(index, x).
          \<lparr>seg_id = ''main-v'' @ show_nat index, seg_type = ''main'',
           seg_start = \<lparr>pos_x = x, pos_z = -120\<rparr>, seg_end = \<lparr>pos_x = x, pos_z = 120\<rparr>,
           width = mainRoadWidth, seg_lanes = 4, seg_speedLimit = 50, isCurved = False,
           curve = None, controlPoint = None, seg_direction = ''vertical''\<rparr>)
        (enumerate 0 [-80, 0, 80])"

definition createSideStreets :: "Segment list" where
  "createSideStreets =
    map (\<lambda>(index, z).
          \<lparr>seg_id = ''side-h'' @ show_nat index, seg_type = ''side'',
           seg_start = \<lparr>pos_x = -80, pos_z = z\<rparr>, seg_end = \<lparr>pos_x = 80, pos_z = z\<rparr>,
           width = sideRoadWidth, seg_lanes = 2, seg_speedLimit = 30, isCurved = False,
           curve = None, controlPoint = None, seg_direction = ''horizontal''\<rparr>)
        (enumerate 0 [-40, 40])
    @ map (\<lambda>(index, x).
          \<lparr>seg_id = ''side-v'' @ show_nat index, seg_type = ''side'',
           seg_start = \<lparr>pos_x = x, pos_z = -80\<rparr>, seg_end = \<lparr>pos_x = x, pos_z = 80\<rparr>,
           width = sideRoadWidth, seg_lanes = 2, seg_speedLimit = 30, isCurved = False,
           curve = None, controlPoint = None, seg_direction = ''vertical''\<rparr>)
        (enumerate 0 [-40, 40])"

definition createHighwayLoop :: "Segment list" where
  "createHighwayLoop =
    (let radius = 140; numSegments = (16::nat) in
     map (\<lambda>i.
          (let angle1 = (real i / real numSegments) * pi * 2;
               angle2 = ((real i + 1) / real numSegments) * pi * 2 in
           \<lparr>seg_id = ''highway-'' @ show_nat i, seg_type = ''highway'',
            seg_start = \<lparr>pos_x = cos angle1 * radius, pos_z = sin angle1 * radius\<rparr>,
            seg_end = \<lparr>pos_x = cos angle2 * radius, pos_z = sin angle2 * radius\<rparr>,
            width = highwayWidth, seg_lanes = 4, seg_speedLimit = 80, isCurved = True,
            curve = Some \<lparr>curveCenter = Some \<lparr>pos_x = 0, pos_z = 0\<rparr>, curveRadius = radius,
                           curveStartAngle = angle1, curveEndAngle = angle2\<rparr>,
            controlPoint = None, seg_direction = ''circular''\<rparr>))
        [0..<numSegments])"

definition createCurvedConnectors :: "Segment list" where
  "createCurvedConnectors =
    map (\<lambda>(index, (from_pt, to_pt, control)).
          \<lparr>seg_id = ''connector-'' @ show_nat index, seg_type = ''connector'',
           seg_start = from_pt, seg_end = to_pt,
           width = mainRoadWidth, seg_lanes = 2, seg_speedLimit = 40, isCurved = True,
           curve = None, controlPoint = Some control, seg_direction = ''connector''\<rparr>)
        (enumerate 0
          [(\<lparr>pos_x = 120, pos_z = 0\<rparr>, \<lparr>pos_x = 140, pos_z = 0\<rparr>, \<lparr>pos_x = 135, pos_z = 10\<rparr>),
           (\<lparr>pos_x = -120, pos_z = 0\<rparr>, \<lparr>pos_x = -140, pos_z = 0\<rparr>, \<lparr>pos_x = -135, pos_z = -10\<rparr>),
           (\<lparr>pos_x = 0, pos_z = 120\<rparr>, \<lparr>pos_x = 0, pos_z = 140\<rparr>, \<lparr>pos_x = 10, pos_z = 135\<rparr>),
           (\<lparr>pos_x = 0, pos_z = -120\<rparr>, \<lparr>pos_x = 0, pos_z = -140\<rparr>, \<lparr>pos_x = -10, pos_z = -135\<rparr>)])"

definition createIntersections :: "Intersection list" where
  "createIntersections =
    (let mainPositions = [-80, 0, 80]; sideH = [-40, 40]; sideV = [-40, 40] in
     concat (map (\<lambda>(xi, x). map (\<lambda>(zi, z).
          \<lparr>inter_id = ''intersection-'' @ show_nat xi @ ''-'' @ show_nat zi,
           inter_position = \<lparr>pos_x = x, pos_z = z\<rparr>, hasTrafficLight = True,
           connectedRoads = [''main-h'' @ show_nat zi, ''main-v'' @ show_nat xi],
           inter_size = mainRoadWidth\<rparr>)
        (enumerate 0 mainPositions)) (enumerate 0 mainPositions))
    @ concat (map (\<lambda>(zi, z). map (\<lambda>(xi, x).
          \<lparr>inter_id = ''side-intersection-'' @ show_nat xi @ ''-'' @ show_nat zi,
           inter_position = \<lparr>pos_x = x, pos_z = z\<rparr>, hasTrafficLight = False,
           connectedRoads = [''side-h'' @ show_nat zi, ''side-v'' @ show_nat xi],
           inter_size = sideRoadWidth\<rparr>)
        (enumerate 0 sideV)) (enumerate 0 sideH))
    @ concat (map (\<lambda>(mi, mainPos).
        map (\<lambda>(si, sideZ).
          \<lparr>inter_id = ''cross-v'' @ show_nat mi @ ''-sh'' @ show_nat si,
           inter_position = \<lparr>pos_x = mainPos, pos_z = sideZ\<rparr>, hasTrafficLight = True,
           connectedRoads = [''main-v'' @ show_nat mi, ''side-h'' @ show_nat si],
           inter_size = mainRoadWidth\<rparr>)
          (enumerate 0 sideH)
        @ map (\<lambda>(si, sideX).
          \<lparr>inter_id = ''cross-h'' @ show_nat mi @ ''-sv'' @ show_nat si,
           inter_position = \<lparr>pos_x = sideX, pos_z = mainPos\<rparr>, hasTrafficLight = True,
           connectedRoads = [''main-h'' @ show_nat mi, ''side-v'' @ show_nat si],
           inter_size = mainRoadWidth\<rparr>)
          (enumerate 0 sideV))
        (enumerate 0 mainPositions)))"

text \<open>
  \<open>generateWaypoints\<close>, one segment at a time. \<open>laneDirection\<close> is the expression
  \<open>lane < segment.lanes / 2 ? 1 : -1\<close>. The curved branch is taken by a segment that is
  flagged curved and has a non-zero \<open>curveRadius\<close>: the highway arcs. The connectors are
  flagged curved but carry no radius, so they take the straight branch. A segment of
  length zero divides by zero in the source (its offsets become \<open>NaN\<close>); there is none
  in the network.
\<close>

definition waypointSpacing :: real where "waypointSpacing = 8"

definition laneDirection :: "Segment \<Rightarrow> nat \<Rightarrow> int" where
  "laneDirection segment lane = (if real lane < real (seg_lanes segment) / 2 then 1 else -1)"

definition laneOffsetOf :: "Segment \<Rightarrow> nat \<Rightarrow> real" where
  "laneOffsetOf segment lane = (real lane - (real (seg_lanes segment) - 1) / 2) * laneWidth"

definition waypointId :: "Segment \<Rightarrow> nat \<Rightarrow> nat \<Rightarrow> string" where
  "waypointId segment i lane = seg_id segment @ ''-wp'' @ show_nat i @ ''-lane'' @ show_nat lane"

definition takesCurvedBranch :: "Segment \<Rightarrow> bool" where
  "takesCurvedBranch segment =
    (isCurved segment \<and> (case curve segment of None \<Rightarrow> False | Some c \<Rightarrow> curveRadius c \<noteq> 0))"

definition curvedWaypoints :: "Segment \<Rightarrow> Curve \<Rightarrow> Waypoint list" where
  "curvedWaypoints segment c =
    (let arcLength = \<bar>curveEndAngle c - curveStartAngle c\<bar> * curveRadius c;
         numPoints = nat (max 3 \<lceil>arcLength / waypointSpacing\<rceil>) in
     concat (map (\<lambda>i.
       (let t = real i / real numPoints;
            angle = curveStartAngle c + t * (curveEndAngle c - curveStartAngle c) in
        map (\<lambda>lane.
          (let laneOffset = laneOffsetOf segment lane;
               r = curveRadius c + laneOffset in
           \<lparr>wp_id = waypointId segment i lane,
            wp_position =
              \<lparr>pos_x = cos angle * r + (case curveCenter c of None \<Rightarrow> 0 | Some cc \<Rightarrow> pos_x cc),
               pos_z = sin angle * r + (case curveCenter c of None \<Rightarrow> 0 | Some cc \<Rightarrow> pos_z cc)\<rparr>,
            wp_lane = lane, wp_segmentId = seg_id segment,
            wp_direction = laneDirection segment lane\<rparr>))
          [0..<seg_lanes segment]))
       [0..<numPoints + 1]))"

definition straightWaypoints :: "Segment \<Rightarrow> Waypoint list" where
  "straightWaypoints segment =
    (let dx = pos_x (seg_end segment) - pos_x (seg_start segment);
         dz = pos_z (seg_end segment) - pos_z (seg_start segment);
         len = sqrt (dx * dx + dz * dz);
         numPoints = nat (max 2 \<lceil>len / waypointSpacing\<rceil>);
         perpX = - dz / len;
         perpZ = dx / len in
     concat (map (\<lambda>i.
       (let t = real i / real numPoints in
        map (\<lambda>lane.
          (let laneOffset = laneOffsetOf segment lane in
           \<lparr>wp_id = waypointId segment i lane,
            wp_position =
              \<lparr>pos_x = pos_x (seg_start segment) + t * dx + perpX * laneOffset,
               pos_z = pos_z (seg_start segment) + t * dz + perpZ * laneOffset\<rparr>,
            wp_lane = lane, wp_segmentId = seg_id segment,
            wp_direction = laneDirection segment lane\<rparr>))
          [0..<seg_lanes segment]))
       [0..<numPoints + 1]))"

definition segmentWaypoints :: "Segment \<Rightarrow> Waypoint list" where
  "segmentWaypoints segment =
    (if takesCurvedBranch segment
     then (case curve segment of None \<Rightarrow> [] | Some c \<Rightarrow> curvedWaypoints segment c)
     else straightWaypoints segment)"

definition segmentLanes :: "Segment \<Rightarrow> Waypoint list \<Rightarrow> Lane list" where
  "segmentLanes segment wps =
    map (\<lambda>lane.
          \<lparr>lane_id = seg_id segment @ ''-lane'' @ show_nat lane,
           lane_segmentId = seg_id segment, laneIndex = lane,
           lane_direction = laneDirection segment lane,
           lane_speedLimit = seg_speedLimit segment,
           lane_waypoints = map wp_id (filter (\<lambda>w. wp_lane w = lane) wps)\<rparr>)
        [0..<seg_lanes segment]"

definition generateWaypoints :: "CityRoadNetwork \<Rightarrow> CityRoadNetwork" where
  "generateWaypoints net =
    fold (\<lambda>segment n.
           (let wps = segmentWaypoints segment in
            n\<lparr>waypoints := fold (\<lambda>wp m. m(wp_id wp \<mapsto> wp)) wps (waypoints n),
              lanes := lanes n @ segmentLanes segment wps\<rparr>))
         (segments net) net"

definition new_CityRoadNetwork :: CityRoadNetwork where
  "new_CityRoadNetwork =
    generateWaypoints
      \<lparr>segments = createMainRoads @ createSideStreets @ createHighwayLoop @ createCurvedConnectors,
       intersections = createIntersections, waypoints = Map.empty, lanes = []\<rparr>"

definition getTrafficLightIntersections :: "CityRoadNetwork \<Rightarrow> Intersection list" where
  "getTrafficLightIntersections net = filter hasTrafficLight (intersections net)"

definition planarDistance :: "Vec2 \<Rightarrow> Vec2 \<Rightarrow> real" where
  "planarDistance a b = sqrt ((pos_x a - pos_x b)\<^sup>2 + (pos_z a - pos_z b)\<^sup>2)"

definition laneOfWaypoint :: "CityRoadNetwork \<Rightarrow> Waypoint \<Rightarrow> Lane option" where
  "laneOfWaypoint net wp =
    find (\<lambda>l. lane_id l = wp_segmentId wp @ ''-lane'' @ show_nat (wp_lane wp)) (lanes net)"

text \<open>
  \<open>findConnectingWaypoint(currentWp, direction)\<close>. The value of \<open>Math.random()\<close> is
  the parameter \<open>rnd\<close>. The result is the waypoint found, \<open>None\<close> for \<open>null\<close> or
  \<open>undefined\<close>; indexing the candidate lanes outside their range gives
  \<open>undefined\<close>, whose \<open>direction\<close> cannot be read.
\<close>

definition findConnectingWaypoint ::
    "CityRoadNetwork \<Rightarrow> Waypoint \<Rightarrow> int \<Rightarrow> real \<Rightarrow> error + Waypoint option" where
  "findConnectingWaypoint net currentWp direction rnd =
    (case find (\<lambda>inter. planarDistance (inter_position inter) (wp_position currentWp) < 15)
            (intersections net) of
       None \<Rightarrow>
         (case laneOfWaypoint net currentWp of
            None \<Rightarrow> Inr None
          | Some lane \<Rightarrow>
              if length (lane_waypoints lane) > 0 then
                (let loopIndex = (if direction > 0 then 0 else length (lane_waypoints lane) - 1)
                 in Inr (waypoints net (lane_waypoints lane ! loopIndex)))
              else Inr None)
     | Some nearbyIntersection \<Rightarrow>
         (let connectedLanes = filter (\<lambda>l.
                if lane_segmentId l = wp_segmentId currentWp then False
                else (case find (\<lambda>s. seg_id s = lane_segmentId l) (segments net) of
                        None \<Rightarrow> False
                      | Some segment \<Rightarrow>
                          (let distToStart =
                                 planarDistance (inter_position nearbyIntersection) (seg_start segment);
                               distToEnd =
                                 planarDistance (inter_position nearbyIntersection) (seg_end segment)
                           in distToStart < 15 \<or> distToEnd < 15)))
              (lanes net) in
          if length connectedLanes = 0 then Inr None
          else
            (let k = \<lfloor>rnd * real (length connectedLanes)\<rfloor> in
             if 0 \<le> k \<and> nat k < length connectedLanes then
               (let nextLane = connectedLanes ! nat k in
                if lane_waypoints nextLane = [] then Inr None
                else Inr (waypoints net
                       (if lane_direction nextLane > 0 then lane_waypoints nextLane ! 0
                        else lane_waypoints nextLane ! (length (lane_waypoints nextLane) - 1))))
             else Inl TypeError)))"

definition getNextWaypoint ::
    "CityRoadNetwork \<Rightarrow> string \<Rightarrow> int \<Rightarrow> real \<Rightarrow> error + Waypoint option" where
  "getNextWaypoint net currentWpId direction rnd =
    (case waypoints net currentWpId of
       None \<Rightarrow> Inr None
     | Some wp \<Rightarrow>
         (case laneOfWaypoint net wp of
            None \<Rightarrow> Inr None
          | Some lane \<Rightarrow>
              (let currentIndex = indexOf (lane_waypoints lane) currentWpId;
                   nextIndex = currentIndex + direction in
               if nextIndex < 0 \<or> nextIndex \<ge> int (length (lane_waypoints lane))
               then findConnectingWaypoint net wp direction rnd
               else Inr (waypoints net (lane_waypoints lane ! nat nextIndex)))))"

section \<open>TrafficManager: the signal coordinator\<close>

text \<open>
  \<open>trafficLights\<close> is a JavaScript \<open>Map\<close> from intersection id to light. It
  iterates in insertion order, so it is a list of entries with distinct keys;
  \<open>Map_set\<close> is \<open>Map.prototype.set\<close>, which keeps the place of a key it already
  holds.
\<close>

fun Map_set :: "'k \<Rightarrow> 'v \<Rightarrow> ('k \<times> 'v) list \<Rightarrow> ('k \<times> 'v) list" where
  "Map_set k v [] = [(k, v)]"
| "Map_set k v ((k', v') # m) = (if k' = k then (k, v) # m else (k', v') # Map_set k v m)"

record TrafficManager =
  trafficLights :: "(string \<times> TrafficLight) list"
  greenWaveSpeed :: real
  baseCycleTime :: real
  pedestrianWalkDuration :: real

definition new_TrafficManager :: TrafficManager where
  "new_TrafficManager =
    \<lparr>trafficLights = [], greenWaveSpeed = 50, baseCycleTime = 26, pedestrianWalkDuration = 8\<rparr>"

definition getPosition :: "TrafficLight \<Rightarrow> Vec2" where
  "getPosition l = inter_position (intersection l)"

definition getIntersectionId :: "TrafficLight \<Rightarrow> string" where
  "getIntersectionId l = inter_id (intersection l)"

text \<open>
  One \<open>forEach\<close> of \<open>applyGreenWave\<close> over a sorted group. \<open>waveCalls\<close> is the
  part for index 1 onwards: \<open>cum\<close> is \<open>cumulativeOffset\<close> before the entry and
  \<open>prevLight\<close> the light of the entry before it. Each entry of the result is the id
  of a light, the value of \<open>cumulativeOffset\<close> when the light is reached, and the
  argument its \<open>setPhaseOffset\<close> is called with. \<open>coord\<close> reads the coordinate the
  pass measures distances in.
\<close>

fun waveCalls :: "(Vec2 \<Rightarrow> real) \<Rightarrow> real \<Rightarrow> real \<Rightarrow> real \<Rightarrow> TrafficLight
    \<Rightarrow> (string \<times> TrafficLight) list \<Rightarrow> (string \<times> real \<times> real) list" where
  "waveCalls coord speed cycle cum prevLight [] = []"
| "waveCalls coord speed cycle cum prevLight ((ident, light) # rest) =
    (let distance = \<bar>coord (getPosition light) - coord (getPosition prevLight)\<bar>;
         travelTime = distance / speed;
         cumulativeOffset = cum + travelTime
     in (ident, cumulativeOffset, js_rem cumulativeOffset cycle)
          # waveCalls coord speed cycle cumulativeOffset light rest)"

definition wavePass :: "(Vec2 \<Rightarrow> real) \<Rightarrow> real \<Rightarrow> real \<Rightarrow> real
    \<Rightarrow> (string \<times> TrafficLight) list \<Rightarrow> (string \<times> real \<times> real) list" where
  "wavePass coord speed cycle start entries =
    (case entries of
       [] \<Rightarrow> []
     | (ident, light) # rest \<Rightarrow> (ident, start, start) # waveCalls coord speed cycle start light rest)"

text \<open>
  The lights in a group are the objects the map holds, so a call of
  \<open>setPhaseOffset\<close> on one of them changes the map's entry with that id.
\<close>

definition applyCalls :: "(string \<times> real \<times> real) list \<Rightarrow> (string \<times> TrafficLight) list
    \<Rightarrow> (string \<times> TrafficLight) list" where
  "applyCalls calls m =
    fold (\<lambda>(ident, cum, off) m'.
            map (\<lambda>(k, l). if k = ident then (k, setPhaseOffset off l) else (k, l)) m')
         calls m"

definition mainHIntersections :: "TrafficManager \<Rightarrow> (string \<times> TrafficLight) list" where
  "mainHIntersections tm =
    sort_key (\<lambda>(ident, l). pos_x (getPosition l))
      (filter (\<lambda>(ident, l). str_includes ident ''intersection-'' \<and> str_includes ident ''-1'')
         (trafficLights tm))"

definition mainVIntersections :: "TrafficManager \<Rightarrow> (string \<times> TrafficLight) list" where
  "mainVIntersections tm =
    sort_key (\<lambda>(ident, l). pos_z (getPosition l))
      (filter (\<lambda>(ident, l). str_includes ident ''intersection-1-'') (trafficLights tm))"

text \<open>
  \<open>applyGreenWave\<close> is the pass over the horizontal group followed by the pass over
  the vertical group, which reads the map the first pass has left.
\<close>

definition horizontalPass :: "TrafficManager \<Rightarrow> TrafficManager" where
  "horizontalPass tm =
    tm\<lparr>trafficLights :=
         applyCalls
           (wavePass pos_x (greenWaveSpeed tm) (baseCycleTime tm) 0 (mainHIntersections tm))
           (trafficLights tm)\<rparr>"

definition verticalPass :: "TrafficManager \<Rightarrow> TrafficManager" where
  "verticalPass tm =
    tm\<lparr>trafficLights :=
         applyCalls
           (wavePass pos_z (greenWaveSpeed tm) (baseCycleTime tm) (baseCycleTime tm / 2)
              (mainVIntersections tm))
           (trafficLights tm)\<rparr>"

definition applyGreenWave :: "TrafficManager \<Rightarrow> TrafficManager" where
  "applyGreenWave tm = verticalPass (horizontalPass tm)"

text \<open>
  \<open>createTrafficLights\<close>: \<open>installLights\<close> is its \<open>forEach\<close>, which puts a new
  light into the map for every signaled intersection; the green wave is applied after it.
\<close>

definition installLights :: "CityRoadNetwork \<Rightarrow> TrafficManager \<Rightarrow> TrafficManager" where
  "installLights net tm =
    tm\<lparr>trafficLights :=
         fold (\<lambda>i m. Map_set (inter_id i) (new_TrafficLight i) m)
              (getTrafficLightIntersections net) (trafficLights tm)\<rparr>"

definition createTrafficLights :: "CityRoadNetwork \<Rightarrow> TrafficManager \<Rightarrow> TrafficManager" where
  "createTrafficLights net tm = applyGreenWave (installLights net tm)"

fun updateLights :: "real \<Rightarrow> (string \<times> TrafficLight) list
    \<Rightarrow> error + (string \<times> TrafficLight) list" where
  "updateLights delta [] = Inr []"
| "updateLights delta ((ident, light) # rest) =
    (case TrafficLight_update delta light of
       Inl e \<Rightarrow> Inl e
     | Inr light' \<Rightarrow>
         (case updateLights delta rest of
            Inl e \<Rightarrow> Inl e
          | Inr rest' \<Rightarrow> Inr ((ident, light') # rest')))"

definition TrafficManager_update :: "real \<Rightarrow> TrafficManager \<Rightarrow> error + TrafficManager" where
  "TrafficManager_update delta tm =
    (case updateLights delta (trafficLights tm) of
       Inl e \<Rightarrow> Inl e
     | Inr ls \<Rightarrow> Inr (tm\<lparr>trafficLights := ls\<rparr>))"

definition getApproachDirection :: "Vec2 \<Rightarrow> Vec2 \<Rightarrow> real \<Rightarrow> direction" where
  "getApproachDirection vehiclePos intersectionPos heading =
    (let dx = pos_x intersectionPos - pos_x vehiclePos;
         dz = pos_z intersectionPos - pos_z vehiclePos in
     if \<bar>dx\<bar> > \<bar>dz\<bar> then (if dx > 0 then West else East)
     else (if dz > 0 then South else North))"

definition getStopPosition :: "Vec2 \<Rightarrow> direction \<Rightarrow> Vec2" where
  "getStopPosition intersectionPos approachDirection =
    (let stopDistance = 8 in
     case approachDirection of
       North \<Rightarrow> \<lparr>pos_x = pos_x intersectionPos, pos_z = pos_z intersectionPos + stopDistance\<rparr>
     | South \<Rightarrow> \<lparr>pos_x = pos_x intersectionPos, pos_z = pos_z intersectionPos - stopDistance\<rparr>
     | East \<Rightarrow> \<lparr>pos_x = pos_x intersectionPos - stopDistance, pos_z = pos_z intersectionPos\<rparr>
     | West \<Rightarrow> \<lparr>pos_x = pos_x intersectionPos + stopDistance, pos_z = pos_z intersectionPos\<rparr>)"

text \<open>
  The object \<open>shouldStop\<close> returns: either a stop with its distance, intersection id,
  light state and stop position, or \<open>{ shouldStop: false, distance: Infinity,
  intersection: null }\<close>.
\<close>

datatype StopResult =
    StopRequired (res_distance: real) (res_intersection: string) (res_state: aspect)
      (res_stopPosition: Vec2)
  | NoStopRequired

text \<open>
  The body of the \<open>forEach\<close> of \<open>shouldStop\<close>. The accumulator is
  \<open>nearestStopRequired\<close>, whose distance is \<open>nearestDistance\<close>; \<open>NoStopRequired\<close>
  stands for \<open>null\<close> with \<open>nearestDistance = Infinity\<close>.
\<close>

definition considerLight :: "Vec2 \<Rightarrow> real \<Rightarrow> real \<Rightarrow> TrafficLight \<Rightarrow> StopResult
    \<Rightarrow> error + StopResult" where
  "considerLight position heading checkDistance light nearest =
    (let lightPos = getPosition light;
         toLight = \<lparr>pos_x = pos_x lightPos - pos_x position,
                    pos_z = pos_z lightPos - pos_z position\<rparr>;
         distance = sqrt (pos_x toLight * pos_x toLight + pos_z toLight * pos_z toLight) in
     if distance > checkDistance \<or> distance < 2 then Inr nearest
     else
       (let forward = \<lparr>pos_x = sin heading, pos_z = cos heading\<rparr>;
            dot = pos_x toLight * pos_x forward + pos_z toLight * pos_z forward in
        if dot < 0 then Inr nearest
        else
          (let direction = getApproachDirection position lightPos heading in
           case getState direction light of
             Inl e \<Rightarrow> Inl e
           | Inr lightState \<Rightarrow>
               if lightState = Red \<or> lightState = Yellow then
                 (if (case nearest of NoStopRequired \<Rightarrow> True
                      | StopRequired nearestDistance _ _ _ \<Rightarrow> distance < nearestDistance)
                  then Inr (StopRequired distance (getIntersectionId light) lightState
                              (getStopPosition lightPos direction))
                  else Inr nearest)
               else Inr nearest)))"

fun considerLights :: "Vec2 \<Rightarrow> real \<Rightarrow> real \<Rightarrow> (string \<times> TrafficLight) list \<Rightarrow> StopResult
    \<Rightarrow> error + StopResult" where
  "considerLights position heading checkDistance [] nearest = Inr nearest"
| "considerLights position heading checkDistance ((ident, light) # rest) nearest =
    (case considerLight position heading checkDistance light nearest of
       Inl e \<Rightarrow> Inl e
     | Inr nearest' \<Rightarrow> considerLights position heading checkDistance rest nearest')"

definition shouldStop :: "TrafficManager \<Rightarrow> Vec2 \<Rightarrow> real \<Rightarrow> real \<Rightarrow> error + StopResult" where
  "shouldStop tm position heading checkDistance =
    considerLights position heading checkDistance (trafficLights tm) NoStopRequired"

section \<open>NPCManager: the cars of the first manager and their collision response\<close>












section \<open>NPCVehicle.js: the driving agent\<close>

datatype behavior = Driving | Stopping | Waiting | Accelerating | Turning

datatype side = Left | Right

text \<open>
  Of the mesh only its presence matters to the logic; \<open>updateMovement\<close> copies the
  position and the rotation into it.
\<close>

record Mesh =
  mesh_position :: Vec2
  mesh_rotation_y :: real

text \<open>
  The fields of an agent. \<open>obj_id\<close> stands for the identity of the object, which
  \<open>checkVehicleAhead\<close> compares with \<open>===\<close>; \<open>vehicleAhead\<close> holds the identity
  of the vehicle it refers to. \<open>distanceToVehicleAhead = None\<close> is \<open>Infinity\<close>. The
  road network and the traffic manager the agent refers to are shared objects; the
  functions below take their current state as arguments, \<open>None\<close> for \<open>null\<close>.
\<close>

record NPCVehicle =
  obj_id :: nat
  position :: Vec2
  rotation :: real
  speed :: real
  targetSpeed :: real
  maxSpeed :: real
  acceleration :: real
  brakeForce :: real
  turnSpeed :: real
  currentLane :: "Lane option"
  state :: behavior
  stoppingDistance :: real
  waitTimer :: real
  turnSignal :: "side option"
  turnSignalTimer :: real
  turnSignalVisible :: bool
  followDistance :: real
  safeDistance :: real
  vehicleAhead :: "nat option"
  distanceToVehicleAhead :: "real option"
  currentSegment :: "Segment option"
  segmentProgress :: real
  segmentDirection :: int
  laneOffset :: real
  mesh :: "Mesh option"
  wheelRotation :: real

definition new_NPCVehicle :: "nat \<Rightarrow> NPCVehicle" where
  "new_NPCVehicle ident =
    \<lparr>obj_id = ident, position = \<lparr>pos_x = 0, pos_z = 0\<rparr>, rotation = 0, speed = 0,
     targetSpeed = 30, maxSpeed = 50, acceleration = 15, brakeForce = 25, turnSpeed = 2,
     currentLane = None, state = Driving, stoppingDistance = 0, waitTimer = 0,
     turnSignal = None, turnSignalTimer = 0, turnSignalVisible = False,
     followDistance = 8, safeDistance = 5, vehicleAhead = None,
     distanceToVehicleAhead = None, currentSegment = None, segmentProgress = 0,
     segmentDirection = 1, laneOffset = 0, mesh = None, wheelRotation = 0\<rparr>"

definition checkTrafficLights :: "TrafficManager option \<Rightarrow> NPCVehicle \<Rightarrow> error + NPCVehicle" where
  "checkTrafficLights trafficManager v =
    (case trafficManager of
       None \<Rightarrow> Inr v
     | Some tm \<Rightarrow>
         (case shouldStop tm \<lparr>pos_x = pos_x (position v), pos_z = pos_z (position v)\<rparr>
                 (rotation v) 25 of
            Inl e \<Rightarrow> Inl e
          | Inr result \<Rightarrow>
              (case result of
                 StopRequired distance _ _ _ \<Rightarrow>
                   if distance < 15
                   then Inr (v\<lparr>state := Stopping, stoppingDistance := distance - 5\<rparr>)
                   else Inr v
               | NoStopRequired \<Rightarrow>
                   if state v = Stopping \<or> state v = Waiting
                   then Inr (v\<lparr>state := Accelerating\<rparr>)
                   else Inr v)))"

text \<open>
  The body of the \<open>forEach\<close> of \<open>checkVehicleAhead\<close>; the accumulator is the pair
  of \<open>vehicleAhead\<close> and \<open>distanceToVehicleAhead\<close>.
\<close>

definition considerVehicle :: "NPCVehicle \<Rightarrow> NPCVehicle \<Rightarrow> (NPCVehicle \<times> real) option
    \<Rightarrow> (NPCVehicle \<times> real) option" where
  "considerVehicle v other ahead =
    (if obj_id other = obj_id v then ahead
     else
       (let forward = \<lparr>pos_x = sin (rotation v), pos_z = cos (rotation v)\<rparr>;
            dx = pos_x (position other) - pos_x (position v);
            dz = pos_z (position other) - pos_z (position v);
            distance = sqrt (dx * dx + dz * dz) in
        if distance > followDistance v * 2 then ahead
        else
          (let dot = dx * pos_x forward + dz * pos_z forward in
           if dot < 0 then ahead
           else
             (let lateral = \<bar>dx * pos_z forward - dz * pos_x forward\<bar> in
              if lateral > 3 then ahead
              else if (case ahead of None \<Rightarrow> True | Some (a, d) \<Rightarrow> distance < d)
              then Some (other, distance)
              else ahead))))"

definition checkVehicleAhead :: "NPCVehicle list \<Rightarrow> NPCVehicle \<Rightarrow> NPCVehicle" where
  "checkVehicleAhead allVehicles v =
    (case fold (considerVehicle v) allVehicles None of
       None \<Rightarrow> v\<lparr>vehicleAhead := None, distanceToVehicleAhead := None\<rparr>
     | Some (other, distance) \<Rightarrow>
         (let v1 = v\<lparr>vehicleAhead := Some (obj_id other),
                     distanceToVehicleAhead := Some distance\<rparr> in
          if distance < followDistance v1 then
            (if distance < safeDistance v1 then v1\<lparr>state := Stopping\<rparr>
             else v1\<lparr>targetSpeed := min (targetSpeed v1) (speed other)\<rparr>)
          else v1))"

text \<open>\<open>this.currentLane?.speedLimit || 30\<close>\<close>

definition laneSpeedLimit :: "NPCVehicle \<Rightarrow> real" where
  "laneSpeedLimit v =
    (case currentLane v of
       None \<Rightarrow> 30
     | Some lane \<Rightarrow> if lane_speedLimit lane = 0 then 30 else lane_speedLimit lane)"

definition updateState :: "real \<Rightarrow> NPCVehicle \<Rightarrow> NPCVehicle" where
  "updateState delta v =
    (case state v of
       Driving \<Rightarrow> v\<lparr>targetSpeed := laneSpeedLimit v\<rparr>
     | Stopping \<Rightarrow>
         (let v1 = v\<lparr>targetSpeed := 0\<rparr> in
          if speed v1 < 0.5 then v1\<lparr>state := Waiting, waitTimer := 0\<rparr> else v1)
     | Waiting \<Rightarrow> v\<lparr>targetSpeed := 0, waitTimer := waitTimer v + delta\<rparr>
     | Accelerating \<Rightarrow>
         (let v1 = v\<lparr>targetSpeed := laneSpeedLimit v\<rparr> in
          if speed v1 > targetSpeed v1 * 0.8 then v1\<lparr>state := Driving\<rparr> else v1)
     | Turning \<Rightarrow> v\<lparr>targetSpeed := 15\<rparr>)"

text \<open>\<open>Math.atan2(y, x)\<close> on numbers; the sign of a zero is not modelled.\<close>

definition atan2 :: "real \<Rightarrow> real \<Rightarrow> real" where
  "atan2 y x =
    (if x > 0 then arctan (y / x)
     else if x < 0 then (if y \<ge> 0 then arctan (y / x) + pi else arctan (y / x) - pi)
     else if y > 0 then pi / 2
     else if y < 0 then - pi / 2
     else 0)"

text \<open>
  The two loops \<open>while (angleDiff > Math.PI) angleDiff -= Math.PI * 2\<close> and
  \<open>while (angleDiff < -Math.PI) angleDiff += Math.PI * 2\<close>.
\<close>

function wrapDown :: "real \<Rightarrow> real" where
  "wrapDown a = (if a > pi then wrapDown (a - pi * 2) else a)"
  by pat_completeness auto
termination
proof (relation "measure (\<lambda>a. nat \<lceil>a / (pi * 2)\<rceil>)")
  show "wf (measure (\<lambda>a. nat \<lceil>a / (pi * 2)\<rceil>))" by simp
next
  fix a :: real
  assume a: "pi < a"
  have e: "(a - pi * 2) / (pi * 2) = a / (pi * 2) - 1"
    by (simp add: diff_divide_distrib)
  have "1 / 2 < a / (pi * 2)" using a pi_gt_zero by (simp add: field_simps)
  then have "0 < a / (pi * 2)" by linarith
  then have "0 < \<lceil>a / (pi * 2)\<rceil>" by simp
  then have "nat (\<lceil>a / (pi * 2)\<rceil> - 1) < nat \<lceil>a / (pi * 2)\<rceil>" by linarith
  then show "(a - pi * 2, a) \<in> measure (\<lambda>a. nat \<lceil>a / (pi * 2)\<rceil>)"
    by (simp add: e)
qed

function wrapUp :: "real \<Rightarrow> real" where
  "wrapUp a = (if a < - pi then wrapUp (a + pi * 2) else a)"
  by pat_completeness auto
termination
proof (relation "measure (\<lambda>a. nat \<lceil>- (a / (pi * 2))\<rceil>)")
  show "wf (measure (\<lambda>a. nat \<lceil>- (a / (pi * 2))\<rceil>))" by simp
next
  fix a :: real
  assume a: "a < - pi"
  have e: "- ((a + pi * 2) / (pi * 2)) = - (a / (pi * 2)) - 1"
    by (simp add: add_divide_distrib)
  have "a / (pi * 2) < - (1 / 2)" using a pi_gt_zero by (simp add: field_simps)
  then have "0 < - (a / (pi * 2))" by linarith
  then have pos: "0 < \<lceil>- (a / (pi * 2))\<rceil>" by (simp only: zero_less_ceiling)
  have "\<lceil>- ((a + pi * 2) / (pi * 2))\<rceil> = \<lceil>- (a / (pi * 2))\<rceil> - 1"
    unfolding e by (rule ceiling_diff_one)
  with pos have "nat \<lceil>- ((a + pi * 2) / (pi * 2))\<rceil> < nat \<lceil>- (a / (pi * 2))\<rceil>"
    by linarith
  then show "(a + pi * 2, a) \<in> measure (\<lambda>a. nat \<lceil>- (a / (pi * 2))\<rceil>)"
    by (simp only: in_measure)
qed

definition normalizeAngle :: "real \<Rightarrow> real" where
  "normalizeAngle angleDiff = wrapUp (wrapDown angleDiff)"

definition getTargetPointOnSegment :: "NPCVehicle \<Rightarrow> Vec2 option" where
  "getTargetPointOnSegment v =
    (case currentSegment v of
       None \<Rightarrow> None
     | Some seg \<Rightarrow>
         (let t = min (segmentProgress v + 0.2) 1 in
          if takesCurvedBranch seg then
            (case curve seg of
               None \<Rightarrow> None
             | Some c \<Rightarrow>
                 (let angle = curveStartAngle c + t * (curveEndAngle c - curveStartAngle c);
                      r = curveRadius c + laneOffset v in
                  Some \<lparr>pos_x = cos angle * r, pos_z = sin angle * r\<rparr>))
          else
            (let dx = pos_x (seg_end seg) - pos_x (seg_start seg);
                 dz = pos_z (seg_end seg) - pos_z (seg_start seg);
                 len = sqrt (dx * dx + dz * dz);
                 perpX = - dz / len * laneOffset v;
                 perpZ = dx / len * laneOffset v in
             Some \<lparr>pos_x = pos_x (seg_start seg) + t * dx + perpX,
                   pos_z = pos_z (seg_start seg) + t * dz + perpZ\<rparr>)))"

text \<open>The distance \<open>findNearestSegment\<close> computes from the agent to one segment.\<close>

definition distanceToSegment :: "NPCVehicle \<Rightarrow> Segment \<Rightarrow> real" where
  "distanceToSegment v seg =
    (if takesCurvedBranch seg then
       \<bar>sqrt (pos_x (position v) * pos_x (position v) + pos_z (position v) * pos_z (position v))
         - (case curve seg of None \<Rightarrow> 0 | Some c \<Rightarrow> curveRadius c)\<bar>
     else
       (let dx = pos_x (seg_end seg) - pos_x (seg_start seg);
            dz = pos_z (seg_end seg) - pos_z (seg_start seg);
            len = sqrt (dx * dx + dz * dz);
            t = max 0 (min 1
                  (((pos_x (position v) - pos_x (seg_start seg)) * dx
                    + (pos_z (position v) - pos_z (seg_start seg)) * dz) / (len * len)));
            closestX = pos_x (seg_start seg) + t * dx;
            closestZ = pos_z (seg_start seg) + t * dz
        in sqrt ((pos_x (position v) - closestX)\<^sup>2 + (pos_z (position v) - closestZ)\<^sup>2)))"

text \<open>
  The loop of \<open>findNearestSegment\<close>: the accumulator is \<open>nearestSeg\<close> with
  \<open>nearestDist\<close>, \<open>None\<close> for \<open>null\<close> and \<open>Infinity\<close>.
\<close>

definition nearerSegment :: "NPCVehicle \<Rightarrow> Segment \<Rightarrow> (Segment \<times> real) option
    \<Rightarrow> (Segment \<times> real) option" where
  "nearerSegment v seg nearest =
    (let dist = distanceToSegment v seg in
     if (case nearest of None \<Rightarrow> True | Some (s, nearestDist) \<Rightarrow> dist < nearestDist)
     then Some (seg, dist) else nearest)"

text \<open>\<open>x || 30\<close> for a number \<open>x\<close>.\<close>

definition orDefault30 :: "real \<Rightarrow> real" where
  "orDefault30 a = (if a = 0 then 30 else a)"

text \<open>
  \<open>rnd1\<close> and \<open>rnd2\<close> are the values the two calls of \<open>Math.random()\<close> return,
  in the order of the calls.
\<close>

definition findNearestSegment :: "CityRoadNetwork option \<Rightarrow> real \<Rightarrow> real \<Rightarrow> NPCVehicle
    \<Rightarrow> NPCVehicle" where
  "findNearestSegment roadNetwork rnd1 rnd2 v =
    (case roadNetwork of
       None \<Rightarrow> v
     | Some net \<Rightarrow>
         (case fold (nearerSegment v) (segments net) None of
            None \<Rightarrow> v
          | Some (nearestSeg, nearestDist) \<Rightarrow>
              if nearestDist < 20 then
                v\<lparr>currentSegment := Some nearestSeg,
                  segmentProgress := 0,
                  segmentDirection := (if rnd1 > 0.5 then 1 else -1),
                  laneOffset := (rnd2 - 0.5) * width nearestSeg * 0.4,
                  targetSpeed := orDefault30 (seg_speedLimit nearestSeg)\<rparr>
              else v))"

text \<open>
  \<open>pickNextSegment\<close>. The segments are compared by identity in the source; the
  segments of a network are distinct objects with distinct contents. An index outside the
  candidates yields \<open>undefined\<close>, whose \<open>width\<close> cannot be read.
\<close>

definition pickNextSegment :: "CityRoadNetwork option \<Rightarrow> real \<Rightarrow> real \<Rightarrow> NPCVehicle
    \<Rightarrow> error + NPCVehicle" where
  "pickNextSegment roadNetwork rnd1 rnd2 v =
    (case roadNetwork of
       None \<Rightarrow> Inr (v\<lparr>segmentProgress := 0\<rparr>)
     | Some net \<Rightarrow>
         (let candidates = filter (\<lambda>seg.
                if Some seg = currentSegment v then False
                else
                  (let distToStart = planarDistance (position v) (seg_start seg);
                       distToEnd = planarDistance (position v) (seg_end seg)
                   in distToStart < 15 \<or> distToEnd < 15))
              (segments net) in
          if length candidates > 0 then
            (let k = \<lfloor>rnd1 * real (length candidates)\<rfloor> in
             if 0 \<le> k \<and> nat k < length candidates then
               (let seg = candidates ! nat k in
                Inr (v\<lparr>currentSegment := Some seg,
                       segmentProgress := 0,
                       laneOffset := (rnd2 - 0.5) * width seg * 0.4,
                       targetSpeed := orDefault30 (seg_speedLimit seg)\<rparr>))
             else Inl TypeError)
          else Inr (v\<lparr>segmentProgress := 0, segmentDirection := segmentDirection v * -1\<rparr>)))"

text \<open>
  \<open>updateMovement\<close>, block by block as the source comments them: speed control,
  following the current road segment (or looking for one), keeping within the city
  bounds, and moving forward with the update of the mesh.
\<close>

definition speedControl :: "real \<Rightarrow> NPCVehicle \<Rightarrow> NPCVehicle" where
  "speedControl delta v =
    (let v1 = (if speed v < targetSpeed v then v\<lparr>speed := speed v + acceleration v * delta\<rparr>
               else if speed v > targetSpeed v then v\<lparr>speed := speed v - brakeForce v * delta\<rparr>
               else v)
     in v1\<lparr>speed := max 0 (min (speed v1) (maxSpeed v1))\<rparr>)"

definition followSegment :: "CityRoadNetwork option \<Rightarrow> real \<Rightarrow> real \<Rightarrow> real \<Rightarrow> NPCVehicle
    \<Rightarrow> error + NPCVehicle" where
  "followSegment roadNetwork rnd1 rnd2 delta v =
    (if currentSegment v \<noteq> None then
       (case getTargetPointOnSegment v of
          None \<Rightarrow> Inr v
        | Some target \<Rightarrow>
            (let dx = pos_x target - pos_x (position v);
                 dz = pos_z target - pos_z (position v);
                 distToTarget = sqrt (dx * dx + dz * dz);
                 targetRotation = atan2 dx dz;
                 angleDiff = normalizeAngle (targetRotation - rotation v);
                 v1 = v\<lparr>turnSignal :=
                           (if \<bar>angleDiff\<bar> > 0.3
                            then (if angleDiff > 0 then Some Left else Some Right)
                            else None),
                         rotation := rotation v + angleDiff * delta * turnSpeed v\<rparr> in
             if distToTarget < 3 then
               (let v2 = v1\<lparr>segmentProgress := segmentProgress v1 + 0.05\<rparr> in
                if segmentProgress v2 \<ge> 1 then pickNextSegment roadNetwork rnd1 rnd2 v2
                else Inr v2)
             else Inr v1))
     else if roadNetwork \<noteq> None then Inr (findNearestSegment roadNetwork rnd1 rnd2 v)
     else Inr v)"

definition keepWithinBounds :: "real \<Rightarrow> NPCVehicle \<Rightarrow> NPCVehicle" where
  "keepWithinBounds delta v =
    (let cityBound = 135 in
     if \<bar>pos_x (position v)\<bar> > cityBound \<or> \<bar>pos_z (position v)\<bar> > cityBound then
       (let toCenter = atan2 (- pos_x (position v)) (- pos_z (position v));
            angleDiff = normalizeAngle (toCenter - rotation v)
        in v\<lparr>rotation := rotation v + angleDiff * delta * 3\<rparr>)
     else v)"

definition moveForward :: "real \<Rightarrow> NPCVehicle \<Rightarrow> NPCVehicle" where
  "moveForward delta v =
    (let v1 = v\<lparr>position :=
                 \<lparr>pos_x = pos_x (position v) + sin (rotation v) * speed v * delta,
                  pos_z = pos_z (position v) + cos (rotation v) * speed v * delta\<rparr>\<rparr>
     in case mesh v1 of
          None \<Rightarrow> v1
        | Some m \<Rightarrow> v1\<lparr>mesh := Some (m\<lparr>mesh_position := position v1,
                                          mesh_rotation_y := rotation v1\<rparr>)\<rparr>)"

definition updateMovement :: "CityRoadNetwork option \<Rightarrow> real \<Rightarrow> real \<Rightarrow> real \<Rightarrow> NPCVehicle
    \<Rightarrow> error + NPCVehicle" where
  "updateMovement roadNetwork rnd1 rnd2 delta v =
    (case followSegment roadNetwork rnd1 rnd2 delta (speedControl delta v) of
       Inl e \<Rightarrow> Inl e
     | Inr v1 \<Rightarrow> Inr (moveForward delta (keepWithinBounds delta v1)))"

text \<open>
  Of \<open>updateVisuals\<close> and \<open>updateTurnSignals\<close> the numeric state: the wheel
  rotation and the blink timer. The emissive intensities they set are display only.
\<close>

definition updateVisuals :: "real \<Rightarrow> NPCVehicle \<Rightarrow> NPCVehicle" where
  "updateVisuals delta v = v\<lparr>wheelRotation := wheelRotation v + speed v * delta * 0.5\<rparr>"

definition updateTurnSignals :: "real \<Rightarrow> NPCVehicle \<Rightarrow> NPCVehicle" where
  "updateTurnSignals delta v =
    (let v1 = v\<lparr>turnSignalTimer := turnSignalTimer v + delta\<rparr> in
     if turnSignalTimer v1 > 0.4
     then v1\<lparr>turnSignalTimer := 0, turnSignalVisible := (\<not> turnSignalVisible v1)\<rparr>
     else v1)"

text \<open>
  \<open>update(delta, allVehicles)\<close>: the main loop of an agent, for the current state of
  the traffic manager and of the road network it refers to.
\<close>

definition NPCVehicle_update :: "TrafficManager option \<Rightarrow> CityRoadNetwork option \<Rightarrow> real \<Rightarrow> real
    \<Rightarrow> real \<Rightarrow> NPCVehicle list \<Rightarrow> NPCVehicle \<Rightarrow> error + NPCVehicle" where
  "NPCVehicle_update trafficManager roadNetwork rnd1 rnd2 delta allVehicles v =
    (if mesh v = None then Inr v
     else
       (case checkTrafficLights trafficManager v of
          Inl e \<Rightarrow> Inl e
        | Inr v1 \<Rightarrow>
            (let v2 = checkVehicleAhead allVehicles v1;
                 v3 = updateState delta v2
             in case updateMovement roadNetwork rnd1 rnd2 delta v3 of
                  Inl e \<Rightarrow> Inl e
                | Inr v4 \<Rightarrow> Inr (updateTurnSignals delta (updateVisuals delta v4)))))"

section \<open>Notions used in the statements\<close>

text \<open>
  The crossing of the two middle main roads, as \<open>createIntersections\<close> builds it; the
  examples below run on it.
\<close>

definition example_intersection :: Intersection where
  "example_intersection =
    \<lparr>inter_id = ''intersection-1-1'', inter_position = \<lparr>pos_x = 0, pos_z = 0\<rparr>,
     hasTrafficLight = True, connectedRoads = [''main-h1'', ''main-v1''], inter_size = 10\<rparr>"

text \<open>
  A replay of the cycle by \<open>update\<close> calls is without overshoot when no call goes
  past the end of the phase it starts in: each ends inside that phase or exactly at its
  end.
\<close>

fun noOvershoot :: "real list \<Rightarrow> TrafficLight \<Rightarrow> bool" where
  "noOvershoot [] l = True"
| "noOvershoot (dt # dts) l =
    (0 \<le> dt \<and> currentPhaseIndex l < length phases
     \<and> phaseTimer l + dt \<le> duration (phases ! currentPhaseIndex l)
     \<and> (case TrafficLight_update dt l of Inl e \<Rightarrow> False | Inr l' \<Rightarrow> noOvershoot dts l'))"

text \<open>
  The time into the cycle a controller stands at: the durations of the phases before the
  current one, plus the time in the current phase. \<open>inPhase\<close> says that the time in
  the current phase is inside it.
\<close>

definition phaseStart :: "nat \<Rightarrow> real" where
  "phaseStart i = sum_list (map duration (take i phases))"

definition cycleTime :: "TrafficLight \<Rightarrow> real" where
  "cycleTime l = phaseStart (currentPhaseIndex l) + phaseTimer l"

definition inPhase :: "TrafficLight \<Rightarrow> bool" where
  "inPhase l \<longleftrightarrow> currentPhaseIndex l < length phases \<and> 0 \<le> phaseTimer l
     \<and> phaseTimer l < duration (phases ! currentPhaseIndex l)"


text \<open>
  A network of the first connector alone among the intersections of the city: what
  \<open>generateWaypoints\<close> makes of the segment \<open>connector-0\<close>, which ends at (140, 0),
  away from every intersection.
\<close>

definition connector_network :: CityRoadNetwork where
  "connector_network =
    generateWaypoints
      \<lparr>segments = [createCurvedConnectors ! 0], intersections = createIntersections,
       waypoints = Map.empty, lanes = []\<rparr>"

text \<open>The traffic manager of the city before and after the green wave.\<close>

definition city_lights :: TrafficManager where
  "city_lights = installLights new_CityRoadNetwork new_TrafficManager"

definition city_TrafficManager :: TrafficManager where
  "city_TrafficManager = createTrafficLights new_CityRoadNetwork new_TrafficManager"




text \<open>
  An agent waiting at the stop point south of the middle crossing: at (0, -8), heading
  north towards the light at (0, 0), at rest in state \<open>waiting\<close> with half a second
  on its wait timer.
\<close>

definition waiting_vehicle :: NPCVehicle where
  "waiting_vehicle =
    (new_NPCVehicle 0)
      \<lparr>position := \<lparr>pos_x = 0, pos_z = -8\<rparr>, speed := 0, targetSpeed := 0,
       state := Waiting, waitTimer := 0.5,
       mesh := Some \<lparr>mesh_position = \<lparr>pos_x = 0, pos_z = -8\<rparr>, mesh_rotation_y = 0\<rparr>\<rparr>"

section \<open>The signal controller: invariant and single step\<close>

lemma length_phases: "length phases = 6"
  by (simp add: phases_def)

lemma total_cycle: "getTotalCycleDuration = 26"
  by (simp add: getTotalCycleDuration_def phases_def)

lemma findPhase_index:
  "findPhase ps i e = Some (j, t) \<Longrightarrow> i \<le> j \<and> j < i + length ps"
proof (induction ps arbitrary: i e)
  case Nil
  then show ?case by simp
next
  case (Cons p ps)
  show ?case
  proof (cases "e < duration p")
    case True
    with Cons.prems show ?thesis by simp
  next
    case False
    with Cons.prems have "findPhase ps (Suc i) (e - duration p) = Some (j, t)" by simp
    from Cons.IH [OF this] show ?thesis by simp
  qed
qed

lemma setPhaseOffset_index:
  "currentPhaseIndex l < length phases \<Longrightarrow>
   currentPhaseIndex (setPhaseOffset off l) < length phases"
  by (auto simp: setPhaseOffset_def Let_def split: option.splits dest: findPhase_index)

lemma update_index:
  "currentPhaseIndex l < length phases \<Longrightarrow>
   \<exists>l'. TrafficLight_update dt l = Inr l' \<and> currentPhaseIndex l' < length phases"
  by (simp add: TrafficLight_update_def Let_def length_phases)

lemma light_calls_index:
  "currentPhaseIndex l < length phases \<Longrightarrow>
   \<exists>l'. light_calls cs l = Inr l' \<and> currentPhaseIndex l' < length phases"
proof (induction cs arbitrary: l)
  case Nil
  then show ?case by simp
next
  case (Cons c cs)
  show ?case
  proof (cases c)
    case (Update dt)
    from update_index [OF Cons.prems, of dt] obtain l1
      where "TrafficLight_update dt l = Inr l1" "currentPhaseIndex l1 < length phases"
      by blast
    with Cons.IH [of l1] Update show ?thesis by simp
  next
    case (SetPhaseOffset off)
    with Cons.IH [OF setPhaseOffset_index [OF Cons.prems, of off]] show ?thesis by simp
  qed
qed

lemma never_both_green:
  "i < length phases \<Longrightarrow> \<not> (ns (phases ! i) = Green \<and> ew (phases ! i) = Green)"
proof -
  assume "i < length phases"
  then have "i \<in> {0, 1, 2, 3, 4, 5}" by (auto simp: length_phases)
  then show ?thesis by (auto simp: phases_def)
qed

text \<open>
  C1. Whatever calls of \<open>update\<close> (with any \<open>dt\<close>, so in particular \<open>dt \<ge> 0\<close>)
  and \<open>setPhaseOffset\<close> a controller has received since its construction, none of
  them has thrown, its phase index is inside the table, the aspect it reports for the
  north-south pair and the one for the east-west pair are not both green, and its six
  phases last 10, 2, 1, 10, 2 and 1 seconds, 26 seconds in all.
\<close>

theorem C1_signal_invariant:
  "\<exists>l. light_calls cs (new_TrafficLight i) = Inr l
     \<and> currentPhaseIndex l < length phases
     \<and> (\<exists>a b. getState North l = Inr a \<and> getState South l = Inr a
            \<and> getState East l = Inr b \<and> getState West l = Inr b
            \<and> \<not> (a = Green \<and> b = Green))
     \<and> map duration phases = [10, 2, 1, 10, 2, 1]
     \<and> getTotalCycleDuration = 10 + 2 + 1 + 10 + 2 + 1
     \<and> getTotalCycleDuration = 26"
proof -
  have "currentPhaseIndex (new_TrafficLight i) < length phases"
    by (simp add: new_TrafficLight_def length_phases)
  from light_calls_index [OF this, of cs] obtain l
    where run: "light_calls cs (new_TrafficLight i) = Inr l"
      and idx: "currentPhaseIndex l < length phases"
    by blast
  have durs: "map duration phases = [10, 2, 1, 10, 2, 1]"
    by (simp add: phases_def)
  from idx never_both_green [OF idx]
  have "\<exists>a b. getState North l = Inr a \<and> getState South l = Inr a
            \<and> getState East l = Inr b \<and> getState West l = Inr b
            \<and> \<not> (a = Green \<and> b = Green)"
    by (simp add: getState_def Let_def)
  with run idx durs total_cycle show ?thesis by simp
qed

text \<open>
  C9. One call of \<open>update(dt)\<close> with \<open>dt \<ge> 0\<close> on a controller whose index is in
  the table does not throw and moves the phase index by at most one position modulo 6.
  When the timer reaches the duration of the current phase the index advances by one and
  the time in phase becomes exactly 0, whatever the excess was; otherwise the index stays
  and the timer grows by \<open>dt\<close>. So one call with 11 seconds leaves a new controller in
  phase 1 at time 0, while 10 seconds followed by 1 second leave it in phase 1 at time 1.
\<close>

theorem C9_update_single_step:
  assumes "currentPhaseIndex l < length phases" and "0 \<le> dt"
  shows "\<exists>l'. TrafficLight_update dt l = Inr l'
     \<and> (currentPhaseIndex l' = currentPhaseIndex l
          \<or> currentPhaseIndex l' = (currentPhaseIndex l + 1) mod 6)
     \<and> (phaseTimer l + dt \<ge> duration (phases ! currentPhaseIndex l) \<longrightarrow>
          currentPhaseIndex l' = (currentPhaseIndex l + 1) mod 6 \<and> phaseTimer l' = 0)
     \<and> (phaseTimer l + dt < duration (phases ! currentPhaseIndex l) \<longrightarrow>
          currentPhaseIndex l' = currentPhaseIndex l \<and> phaseTimer l' = phaseTimer l + dt)
     \<and> light_calls [Update 11] (new_TrafficLight i)
          = Inr ((new_TrafficLight i)\<lparr>phaseTimer := 0, currentPhaseIndex := 1\<rparr>)
     \<and> light_calls [Update 10, Update 1] (new_TrafficLight i)
          = Inr ((new_TrafficLight i)\<lparr>phaseTimer := 1, currentPhaseIndex := 1\<rparr>)
     \<and> light_calls [Update 11] (new_TrafficLight i)
          \<noteq> light_calls [Update 10, Update 1] (new_TrafficLight i)"
proof -
  have step: "\<exists>l'. TrafficLight_update dt l = Inr l'
     \<and> (currentPhaseIndex l' = currentPhaseIndex l
          \<or> currentPhaseIndex l' = (currentPhaseIndex l + 1) mod 6)
     \<and> (phaseTimer l + dt \<ge> duration (phases ! currentPhaseIndex l) \<longrightarrow>
          currentPhaseIndex l' = (currentPhaseIndex l + 1) mod 6 \<and> phaseTimer l' = 0)
     \<and> (phaseTimer l + dt < duration (phases ! currentPhaseIndex l) \<longrightarrow>
          currentPhaseIndex l' = currentPhaseIndex l \<and> phaseTimer l' = phaseTimer l + dt)"
    using assms(1) by (simp add: TrafficLight_update_def Let_def length_phases)
  have big: "light_calls [Update 11] (new_TrafficLight i)
          = Inr ((new_TrafficLight i)\<lparr>phaseTimer := 0, currentPhaseIndex := 1\<rparr>)"
    by (simp add: TrafficLight_update_def Let_def new_TrafficLight_def phases_def)
  have small: "light_calls [Update 10, Update 1] (new_TrafficLight i)
          = Inr ((new_TrafficLight i)\<lparr>phaseTimer := 1, currentPhaseIndex := 1\<rparr>)"
    by (simp add: TrafficLight_update_def Let_def new_TrafficLight_def phases_def)
  have "light_calls [Update 11] (new_TrafficLight i)
          \<noteq> light_calls [Update 10, Update 1] (new_TrafficLight i)"
    unfolding big small by (simp add: new_TrafficLight_def)
  with step big small show ?thesis by blast
qed

theorem C9_update_single_step_witness:
  "currentPhaseIndex (new_TrafficLight example_intersection) < length phases \<and> (0::real) \<le> 100
   \<and> TrafficLight_update 100 (new_TrafficLight example_intersection)
       = Inr ((new_TrafficLight example_intersection)\<lparr>phaseTimer := 0, currentPhaseIndex := 1\<rparr>)"
proof -
  have h: "currentPhaseIndex (new_TrafficLight example_intersection) < length phases"
    by (simp add: new_TrafficLight_def length_phases)
  have d: "(0::real) \<le> 100" by simp
  have "TrafficLight_update 100 (new_TrafficLight example_intersection)
       = Inr ((new_TrafficLight example_intersection)\<lparr>phaseTimer := 0, currentPhaseIndex := 1\<rparr>)"
    by (simp add: TrafficLight_update_def Let_def new_TrafficLight_def phases_def)
  with h d C9_update_single_step [OF h d] show ?thesis by simp
qed

section \<open>Phase offsets against a replay of the cycle\<close>

lemma js_rem_bounds: "0 \<le> a \<Longrightarrow> 0 < b \<Longrightarrow> 0 \<le> js_rem a b \<and> js_rem a b < b"
proof -
  assume a: "0 \<le> a" and b: "0 < b"
  then have q: "0 \<le> a / b" by simp
  have ab: "b * (a / b) = a" using b by simp
  have "b * of_int \<lfloor>a / b\<rfloor> \<le> b * (a / b)"
    using b by (intro mult_left_mono) simp_all
  then have lo: "b * of_int \<lfloor>a / b\<rfloor> \<le> a" using ab by simp
  have "a / b < of_int \<lfloor>a / b\<rfloor> + 1" by linarith
  then have "b * (a / b) < b * (of_int \<lfloor>a / b\<rfloor> + 1)"
    using b by (intro mult_strict_left_mono) simp_all
  then have hi: "a < b * of_int \<lfloor>a / b\<rfloor> + b" using ab by (simp add: algebra_simps)
  from lo hi q show ?thesis by (simp add: js_rem_def)
qed

lemma findPhase_cycleTime:
  "inPhase l \<Longrightarrow> findPhase phases 0 (cycleTime l) = Some (currentPhaseIndex l, phaseTimer l)"
proof -
  assume g: "inPhase l"
  then have "currentPhaseIndex l \<in> {0, 1, 2, 3, 4, 5}"
    by (auto simp: inPhase_def length_phases)
  with g show ?thesis
    by (auto simp: inPhase_def cycleTime_def phaseStart_def phases_def)
qed

lemma update_cycleTime:
  assumes "inPhase l" and "0 \<le> dt"
    and "phaseTimer l + dt \<le> duration (phases ! currentPhaseIndex l)"
    and "cycleTime l + dt < getTotalCycleDuration"
  shows "\<exists>l'. TrafficLight_update dt l = Inr l' \<and> inPhase l' \<and> cycleTime l' = cycleTime l + dt"
proof -
  from assms(1) have "currentPhaseIndex l \<in> {0, 1, 2, 3, 4, 5}"
    by (auto simp: inPhase_def length_phases)
  with assms show ?thesis
    by (auto simp: inPhase_def cycleTime_def phaseStart_def phases_def total_cycle
        TrafficLight_update_def Let_def)
qed

lemma noOvershoot_nonneg: "noOvershoot dts l \<Longrightarrow> 0 \<le> sum_list dts"
  by (induction dts arbitrary: l) (auto split: sum.splits)

lemma replay_cycleTime:
  "inPhase l \<Longrightarrow> noOvershoot dts l \<Longrightarrow> cycleTime l + sum_list dts < getTotalCycleDuration \<Longrightarrow>
   \<exists>l'. light_calls (map Update dts) l = Inr l' \<and> inPhase l'
      \<and> cycleTime l' = cycleTime l + sum_list dts"
proof (induction dts arbitrary: l)
  case Nil
  then show ?case by simp
next
  case (Cons dt dts)
  from Cons.prems(2) have dt: "0 \<le> dt"
    and fit: "phaseTimer l + dt \<le> duration (phases ! currentPhaseIndex l)"
    by simp_all
  from Cons.prems(2) obtain l1 where up: "TrafficLight_update dt l = Inr l1"
    and rest: "noOvershoot dts l1"
    by (auto split: sum.splits)
  from noOvershoot_nonneg [OF rest] Cons.prems(3)
  have "cycleTime l + dt < getTotalCycleDuration" by simp
  from update_cycleTime [OF Cons.prems(1) dt fit this] up
  have g1: "inPhase l1" and c1: "cycleTime l1 = cycleTime l + dt" by simp_all
  from Cons.prems(3) c1 have "cycleTime l1 + sum_list dts < getTotalCycleDuration" by simp
  from Cons.IH [OF g1 rest this] obtain l' where
    "light_calls (map Update dts) l1 = Inr l'" "inPhase l'"
    "cycleTime l' = cycleTime l1 + sum_list dts" by blast
  with up c1 show ?case by simp
qed

text \<open>
  C3, as amended. For every offset \<open>o \<ge> 0\<close>, \<open>setPhaseOffset(o)\<close> on any
  controller leaves the same phase index and time in phase as a new controller reaches by
  \<open>update\<close> calls that add up to \<open>o mod cycleLength\<close> seconds, provided no call
  overshoots the end of the phase it starts in; the replay does not throw.
\<close>

theorem C3_offset_replay:
  assumes "0 \<le> off"
    and "sum_list dts = js_rem off getTotalCycleDuration"
    and "noOvershoot dts (new_TrafficLight i)"
  shows "\<exists>l'. light_calls (map Update dts) (new_TrafficLight i) = Inr l'
     \<and> currentPhaseIndex (setPhaseOffset off l) = currentPhaseIndex l'
     \<and> phaseTimer (setPhaseOffset off l) = phaseTimer l'"
proof -
  have start: "inPhase (new_TrafficLight i)" "cycleTime (new_TrafficLight i) = 0"
    by (simp_all add: inPhase_def cycleTime_def phaseStart_def new_TrafficLight_def phases_def)
  from js_rem_bounds [OF assms(1), of getTotalCycleDuration]
  have "js_rem off getTotalCycleDuration < getTotalCycleDuration" by (simp add: total_cycle)
  with assms(2) start(2)
  have "cycleTime (new_TrafficLight i) + sum_list dts < getTotalCycleDuration" by simp
  from replay_cycleTime [OF start(1) assms(3) this] start(2) assms(2) obtain l'
    where run: "light_calls (map Update dts) (new_TrafficLight i) = Inr l'"
      and g: "inPhase l'" and c: "cycleTime l' = js_rem off getTotalCycleDuration"
    by auto
  from findPhase_cycleTime [OF g] c
  have "findPhase phases 0 (js_rem off getTotalCycleDuration)
          = Some (currentPhaseIndex l', phaseTimer l')" by simp
  then have "currentPhaseIndex (setPhaseOffset off l) = currentPhaseIndex l'
     \<and> phaseTimer (setPhaseOffset off l) = phaseTimer l'"
    by (simp add: setPhaseOffset_def Let_def)
  with run show ?thesis by blast
qed

lemma js_rem_11: "js_rem 11 getTotalCycleDuration = 11"
proof -
  have "\<lfloor>(11::real) / 26\<rfloor> = 0" by simp
  then show ?thesis by (simp add: js_rem_def total_cycle)
qed

theorem C3_offset_replay_witness:
  "(0::real) \<le> 11 \<and> sum_list [10, 1] = js_rem 11 getTotalCycleDuration
   \<and> noOvershoot [10, 1] (new_TrafficLight example_intersection)
   \<and> light_calls (map Update [10, 1]) (new_TrafficLight example_intersection)
        = Inr ((new_TrafficLight example_intersection)\<lparr>phaseTimer := 1, currentPhaseIndex := 1\<rparr>)
   \<and> currentPhaseIndex (setPhaseOffset 11 (new_TrafficLight example_intersection)) = 1
   \<and> phaseTimer (setPhaseOffset 11 (new_TrafficLight example_intersection)) = 1"
proof -
  have a: "(0::real) \<le> 11" by simp
  have b: "sum_list [10, 1] = js_rem 11 getTotalCycleDuration" by (simp add: js_rem_11)
  have c: "noOvershoot [10, 1] (new_TrafficLight example_intersection)"
    by (simp add: TrafficLight_update_def Let_def new_TrafficLight_def phases_def)
  have d: "light_calls (map Update [10, 1]) (new_TrafficLight example_intersection)
        = Inr ((new_TrafficLight example_intersection)\<lparr>phaseTimer := 1, currentPhaseIndex := 1\<rparr>)"
    by (simp add: TrafficLight_update_def Let_def new_TrafficLight_def phases_def)
  from C3_offset_replay [OF a b c, of "new_TrafficLight example_intersection"] d
  have "currentPhaseIndex (setPhaseOffset 11 (new_TrafficLight example_intersection)) = 1
   \<and> phaseTimer (setPhaseOffset 11 (new_TrafficLight example_intersection)) = 1"
    by auto
  with a b c d show ?thesis by blast
qed

text \<open>
  C3 as stated fails when a call of the replay overshoots: for the offset 11 the single
  call \<open>update(11)\<close> makes up the 11 seconds and leaves a new controller in phase 1 at
  time 0, where \<open>setPhaseOffset(11)\<close> sets phase 1 at time 1.
\<close>

theorem C3_offset_replay_counterexample:
  "(0::real) \<le> 11 \<and> sum_list [11] = js_rem 11 getTotalCycleDuration
   \<and> light_calls (map Update [11]) (new_TrafficLight example_intersection)
        = Inr ((new_TrafficLight example_intersection)\<lparr>phaseTimer := 0, currentPhaseIndex := 1\<rparr>)
   \<and> setPhaseOffset 11 (new_TrafficLight example_intersection)
        = (new_TrafficLight example_intersection)
            \<lparr>phaseOffset := 11, phaseTimer := 1, currentPhaseIndex := 1\<rparr>
   \<and> phaseTimer (setPhaseOffset 11 (new_TrafficLight example_intersection)) \<noteq> 0"
proof -
  have s: "setPhaseOffset 11 (new_TrafficLight example_intersection)
        = (new_TrafficLight example_intersection)
            \<lparr>phaseOffset := 11, phaseTimer := 1, currentPhaseIndex := 1\<rparr>"
    by (simp add: setPhaseOffset_def js_rem_11 Let_def new_TrafficLight_def phases_def)
  have u: "light_calls (map Update [11]) (new_TrafficLight example_intersection)
        = Inr ((new_TrafficLight example_intersection)\<lparr>phaseTimer := 0, currentPhaseIndex := 1\<rparr>)"
    by (simp add: TrafficLight_update_def Let_def new_TrafficLight_def phases_def)
  have "phaseTimer (setPhaseOffset 11 (new_TrafficLight example_intersection)) \<noteq> 0"
    unfolding s by simp
  with s u show ?thesis by (simp add: js_rem_11)
qed

section \<open>Waypoints of a straight segment\<close>

declare show_nat.simps [simp del]

lemma show_nat_digits [simp]:
  "show_nat 0 = ''0''" "show_nat 1 = ''1''" "show_nat 2 = ''2''" "show_nat (Suc 0) = ''1''"
  by (simp_all add: show_nat.simps)








section \<open>The connecting waypoint at the end of a lane\<close>









lemma show_nat_3 [simp]: "show_nat 3 = ''3''"
  by (simp add: show_nat.simps)










section \<open>The green wave\<close>

lemma generateWaypoints_intersections:
  "intersections (generateWaypoints net) = intersections net"
proof -
  have "intersections (fold (\<lambda>segment n.
           (let wps = segmentWaypoints segment in
            n\<lparr>waypoints := fold (\<lambda>wp m. m(wp_id wp \<mapsto> wp)) wps (waypoints n),
              lanes := lanes n @ segmentLanes segment wps\<rparr>)) ss n) = intersections n"
    for ss n
    by (induction ss arbitrary: n) (simp_all add: Let_def)
  then show ?thesis by (simp add: generateWaypoints_def)
qed

lemma show_nat_Suc_Suc_0 [simp]: "show_nat (Suc (Suc 0)) = ''2''"
  by (simp add: show_nat.simps)

lemma signaled_intersections:
  "getTrafficLightIntersections new_CityRoadNetwork =
    [\<lparr>inter_id = ''intersection-0-0'', inter_position = \<lparr>pos_x = -80, pos_z = -80\<rparr>,
       hasTrafficLight = True, connectedRoads = [''main-h0'', ''main-v0''], inter_size = 10\<rparr>,
     \<lparr>inter_id = ''intersection-0-1'', inter_position = \<lparr>pos_x = -80, pos_z = 0\<rparr>,
       hasTrafficLight = True, connectedRoads = [''main-h1'', ''main-v0''], inter_size = 10\<rparr>,
     \<lparr>inter_id = ''intersection-0-2'', inter_position = \<lparr>pos_x = -80, pos_z = 80\<rparr>,
       hasTrafficLight = True, connectedRoads = [''main-h2'', ''main-v0''], inter_size = 10\<rparr>,
     \<lparr>inter_id = ''intersection-1-0'', inter_position = \<lparr>pos_x = 0, pos_z = -80\<rparr>,
       hasTrafficLight = True, connectedRoads = [''main-h0'', ''main-v1''], inter_size = 10\<rparr>,
     \<lparr>inter_id = ''intersection-1-1'', inter_position = \<lparr>pos_x = 0, pos_z = 0\<rparr>,
       hasTrafficLight = True, connectedRoads = [''main-h1'', ''main-v1''], inter_size = 10\<rparr>,
     \<lparr>inter_id = ''intersection-1-2'', inter_position = \<lparr>pos_x = 0, pos_z = 80\<rparr>,
       hasTrafficLight = True, connectedRoads = [''main-h2'', ''main-v1''], inter_size = 10\<rparr>,
     \<lparr>inter_id = ''intersection-2-0'', inter_position = \<lparr>pos_x = 80, pos_z = -80\<rparr>,
       hasTrafficLight = True, connectedRoads = [''main-h0'', ''main-v2''], inter_size = 10\<rparr>,
     \<lparr>inter_id = ''intersection-2-1'', inter_position = \<lparr>pos_x = 80, pos_z = 0\<rparr>,
       hasTrafficLight = True, connectedRoads = [''main-h1'', ''main-v2''], inter_size = 10\<rparr>,
     \<lparr>inter_id = ''intersection-2-2'', inter_position = \<lparr>pos_x = 80, pos_z = 80\<rparr>,
       hasTrafficLight = True, connectedRoads = [''main-h2'', ''main-v2''], inter_size = 10\<rparr>,
     \<lparr>inter_id = ''cross-v0-sh0'', inter_position = \<lparr>pos_x = -80, pos_z = -40\<rparr>,
       hasTrafficLight = True, connectedRoads = [''main-v0'', ''side-h0''], inter_size = 10\<rparr>,
     \<lparr>inter_id = ''cross-v0-sh1'', inter_position = \<lparr>pos_x = -80, pos_z = 40\<rparr>,
       hasTrafficLight = True, connectedRoads = [''main-v0'', ''side-h1''], inter_size = 10\<rparr>,
     \<lparr>inter_id = ''cross-h0-sv0'', inter_position = \<lparr>pos_x = -40, pos_z = -80\<rparr>,
       hasTrafficLight = True, connectedRoads = [''main-h0'', ''side-v0''], inter_size = 10\<rparr>,
     \<lparr>inter_id = ''cross-h0-sv1'', inter_position = \<lparr>pos_x = 40, pos_z = -80\<rparr>,
       hasTrafficLight = True, connectedRoads = [''main-h0'', ''side-v1''], inter_size = 10\<rparr>,
     \<lparr>inter_id = ''cross-v1-sh0'', inter_position = \<lparr>pos_x = 0, pos_z = -40\<rparr>,
       hasTrafficLight = True, connectedRoads = [''main-v1'', ''side-h0''], inter_size = 10\<rparr>,
     \<lparr>inter_id = ''cross-v1-sh1'', inter_position = \<lparr>pos_x = 0, pos_z = 40\<rparr>,
       hasTrafficLight = True, connectedRoads = [''main-v1'', ''side-h1''], inter_size = 10\<rparr>,
     \<lparr>inter_id = ''cross-h1-sv0'', inter_position = \<lparr>pos_x = -40, pos_z = 0\<rparr>,
       hasTrafficLight = True, connectedRoads = [''main-h1'', ''side-v0''], inter_size = 10\<rparr>,
     \<lparr>inter_id = ''cross-h1-sv1'', inter_position = \<lparr>pos_x = 40, pos_z = 0\<rparr>,
       hasTrafficLight = True, connectedRoads = [''main-h1'', ''side-v1''], inter_size = 10\<rparr>,
     \<lparr>inter_id = ''cross-v2-sh0'', inter_position = \<lparr>pos_x = 80, pos_z = -40\<rparr>,
       hasTrafficLight = True, connectedRoads = [''main-v2'', ''side-h0''], inter_size = 10\<rparr>,
     \<lparr>inter_id = ''cross-v2-sh1'', inter_position = \<lparr>pos_x = 80, pos_z = 40\<rparr>,
       hasTrafficLight = True, connectedRoads = [''main-v2'', ''side-h1''], inter_size = 10\<rparr>,
     \<lparr>inter_id = ''cross-h2-sv0'', inter_position = \<lparr>pos_x = -40, pos_z = 80\<rparr>,
       hasTrafficLight = True, connectedRoads = [''main-h2'', ''side-v0''], inter_size = 10\<rparr>,
     \<lparr>inter_id = ''cross-h2-sv1'', inter_position = \<lparr>pos_x = 40, pos_z = 80\<rparr>,
       hasTrafficLight = True, connectedRoads = [''main-h2'', ''side-v1''], inter_size = 10\<rparr>]"
  by (simp add: getTrafficLightIntersections_def new_CityRoadNetwork_def
      generateWaypoints_intersections createIntersections_def Let_def enumerate_eq_zip upt_rec
      mainRoadWidth_def sideRoadWidth_def)

lemma city_lights_ids:
  "map fst (trafficLights city_lights) =
    [''intersection-0-0'',
     ''intersection-0-1'',
     ''intersection-0-2'',
     ''intersection-1-0'',
     ''intersection-1-1'',
     ''intersection-1-2'',
     ''intersection-2-0'',
     ''intersection-2-1'',
     ''intersection-2-2'',
     ''cross-v0-sh0'',
     ''cross-v0-sh1'',
     ''cross-h0-sv0'',
     ''cross-h0-sv1'',
     ''cross-v1-sh0'',
     ''cross-v1-sh1'',
     ''cross-h1-sv0'',
     ''cross-h1-sv1'',
     ''cross-v2-sh0'',
     ''cross-v2-sh1'',
     ''cross-h2-sv0'',
     ''cross-h2-sv1'']"
  by (simp add: city_lights_def installLights_def new_TrafficManager_def signaled_intersections)

lemma js_rem_small: "0 \<le> a \<Longrightarrow> a < b \<Longrightarrow> js_rem a b = a"
proof -
  assume a: "0 \<le> a" and b: "a < b"
  then have "0 \<le> a / b" "a / b < 1" by simp_all
  then have "\<lfloor>a / b\<rfloor> = 0" by linarith
  with \<open>0 \<le> a / b\<close> show ?thesis by (simp add: js_rem_def)
qed

lemma city_lights_lights:
  "trafficLights city_lights =
     map (\<lambda>i. (inter_id i, new_TrafficLight i)) (getTrafficLightIntersections new_CityRoadNetwork)"
  by (simp add: city_lights_def installLights_def new_TrafficManager_def signaled_intersections)

lemma city_lights_speed:
  "greenWaveSpeed city_lights = 50" "baseCycleTime city_lights = 26"
  by (simp_all add: city_lights_def installLights_def new_TrafficManager_def)

lemma mainH_city:
  "map (\<lambda>(k, l). (k, pos_x (getPosition l), pos_z (getPosition l))) (mainHIntersections city_lights) =
    [(''intersection-0-1'', -80, 0), (''intersection-1-0'', 0, -80), (''intersection-1-1'', 0, 0),
     (''intersection-1-2'', 0, 80), (''intersection-2-1'', 80, 0)]"
  by (simp add: mainHIntersections_def city_lights_lights signaled_intersections getPosition_def
      new_TrafficLight_def)

lemma waveH_city:
  "wavePass pos_x 50 26 0 (mainHIntersections city_lights) =
    [(''intersection-0-1'', 0, 0), (''intersection-1-0'', 8 / 5, 8 / 5),
     (''intersection-1-1'', 8 / 5, 8 / 5), (''intersection-1-2'', 8 / 5, 8 / 5),
     (''intersection-2-1'', 16 / 5, 16 / 5)]"
  by (simp add: mainHIntersections_def city_lights_lights signaled_intersections getPosition_def
      new_TrafficLight_def wavePass_def Let_def city_lights_speed js_rem_small)

lemma city_final:
  "map (\<lambda>(k, l). (k, pos_x (getPosition l), pos_z (getPosition l), phaseOffset l,
                    currentPhaseIndex l, phaseTimer l))
     (trafficLights city_TrafficManager) =
    [(''intersection-0-0'', -80, -80, 0, 0, 0),
     (''intersection-0-1'', -80, 0, 0, 0, 0),
     (''intersection-0-2'', -80, 80, 0, 0, 0),
     (''intersection-1-0'', 0, -80, 13, 3, 0),
     (''intersection-1-1'', 0, 0, 73 / 5, 3, 8 / 5),
     (''intersection-1-2'', 0, 80, 81 / 5, 3, 16 / 5),
     (''intersection-2-0'', 80, -80, 0, 0, 0),
     (''intersection-2-1'', 80, 0, 16 / 5, 0, 16 / 5),
     (''intersection-2-2'', 80, 80, 0, 0, 0),
     (''cross-v0-sh0'', -80, -40, 0, 0, 0),
     (''cross-v0-sh1'', -80, 40, 0, 0, 0),
     (''cross-h0-sv0'', -40, -80, 0, 0, 0),
     (''cross-h0-sv1'', 40, -80, 0, 0, 0),
     (''cross-v1-sh0'', 0, -40, 0, 0, 0),
     (''cross-v1-sh1'', 0, 40, 0, 0, 0),
     (''cross-h1-sv0'', -40, 0, 0, 0, 0),
     (''cross-h1-sv1'', 40, 0, 0, 0, 0),
     (''cross-v2-sh0'', 80, -40, 0, 0, 0),
     (''cross-v2-sh1'', 80, 40, 0, 0, 0),
     (''cross-h2-sv0'', -40, 80, 0, 0, 0),
     (''cross-h2-sv1'', 40, 80, 0, 0, 0)]"
  unfolding city_TrafficManager_def createTrafficLights_def city_lights_def [symmetric]
  unfolding applyGreenWave_def verticalPass_def horizontalPass_def
  apply (simp add: waveH_city city_lights_speed)
  apply (simp add: mainVIntersections_def applyCalls_def city_lights_lights signaled_intersections
      getPosition_def new_TrafficLight_def wavePass_def Let_def js_rem_small
      setPhaseOffset_def total_cycle phases_def)
  done

lemma waveCalls_ids:
  "map fst (waveCalls coord spd cycle cum prev es) = map fst es"
  by (induction es arbitrary: cum prev) (auto simp: Let_def)

lemma waveCalls_wrapped:
  "k < length es \<Longrightarrow>
   snd (snd (waveCalls coord spd cycle cum prev es ! k))
     = js_rem (fst (snd (waveCalls coord spd cycle cum prev es ! k))) cycle"
proof (induction es arbitrary: k cum prev)
  case Nil
  then show ?case by simp
next
  case (Cons e es)
  obtain i l where e: "e = (i, l)" by (cases e)
  show ?case
  proof (cases k)
    case 0
    with e show ?thesis by (simp add: Let_def)
  next
    case (Suc k')
    with Cons.prems have "k' < length es" by simp
    from Cons.IH [OF this] Suc e show ?thesis by (simp add: Let_def)
  qed
qed

lemma waveCalls_first:
  "es \<noteq> [] \<Longrightarrow>
   fst (snd (waveCalls coord spd cycle cum prev es ! 0))
     = cum + \<bar>coord (getPosition (snd (es ! 0))) - coord (getPosition prev)\<bar> / spd"
  by (cases es) (auto simp: Let_def)

lemma waveCalls_next:
  "Suc k < length es \<Longrightarrow>
   fst (snd (waveCalls coord spd cycle cum prev es ! Suc k))
     = fst (snd (waveCalls coord spd cycle cum prev es ! k))
       + \<bar>coord (getPosition (snd (es ! Suc k))) - coord (getPosition (snd (es ! k)))\<bar> / spd"
proof (induction es arbitrary: k cum prev)
  case Nil
  then show ?case by simp
next
  case (Cons e es)
  obtain i l where e: "e = (i, l)" by (cases e)
  show ?case
  proof (cases k)
    case 0
    with Cons.prems have "es \<noteq> []" by auto
    from waveCalls_first [OF this] 0 e show ?thesis by (simp add: Let_def)
  next
    case (Suc k')
    with Cons.prems have "Suc k' < length es" by simp
    from Cons.IH [OF this] Suc e show ?thesis by (simp add: Let_def)
  qed
qed

lemma wavePass_next:
  assumes "Suc k < length es"
  shows "fst (snd (wavePass coord spd cycle start es ! Suc k))
     = fst (snd (wavePass coord spd cycle start es ! k))
       + \<bar>coord (getPosition (snd (es ! Suc k))) - coord (getPosition (snd (es ! k)))\<bar> / spd
   \<and> snd (snd (wavePass coord spd cycle start es ! Suc k))
     = js_rem (fst (snd (wavePass coord spd cycle start es ! Suc k))) cycle"
proof -
  from assms obtain i l rest where es: "es = (i, l) # rest" by (cases es) auto
  with assms have k: "k < length rest" by simp
  have wrapped: "snd (snd (wavePass coord spd cycle start es ! Suc k))
     = js_rem (fst (snd (wavePass coord spd cycle start es ! Suc k))) cycle"
    using waveCalls_wrapped [OF k] es by (simp add: wavePass_def)
  have "fst (snd (wavePass coord spd cycle start es ! Suc k))
     = fst (snd (wavePass coord spd cycle start es ! k))
       + \<bar>coord (getPosition (snd (es ! Suc k))) - coord (getPosition (snd (es ! k)))\<bar> / spd"
  proof (cases k)
    case 0
    from k have "rest \<noteq> []" by auto
    from waveCalls_first [OF this] 0 es show ?thesis by (simp add: wavePass_def)
  next
    case (Suc k')
    with k have "Suc k' < length rest" by simp
    from waveCalls_next [OF this] Suc es show ?thesis by (simp add: wavePass_def)
  qed
  with wrapped show ?thesis by simp
qed

lemma wavePass_three:
  assumes "coord (getPosition lb) = coord (getPosition la) + s"
    and "coord (getPosition lc) = coord (getPosition lb) + s"
    and "0 < s"
  shows "wavePass coord spd cycle start [(a, la), (b, lb), (c, lc)] =
           [(a, start, start),
            (b, start + s / spd, js_rem (start + s / spd) cycle),
            (c, start + s / spd + s / spd, js_rem (start + s / spd + s / spd) cycle)]"
  using assms by (simp add: wavePass_def Let_def)

lemma mainV_after:
  "mainVIntersections (horizontalPass city_lights) =
    [(''intersection-1-0'', (new_TrafficLight
        \<lparr>inter_id = ''intersection-1-0'', inter_position = \<lparr>pos_x = 0, pos_z = -80\<rparr>,
         hasTrafficLight = True, connectedRoads = [''main-h0'', ''main-v1''], inter_size = 10\<rparr>)
        \<lparr>phaseTimer := 8 / 5, phaseOffset := 8 / 5\<rparr>),
     (''intersection-1-1'', (new_TrafficLight
        \<lparr>inter_id = ''intersection-1-1'', inter_position = \<lparr>pos_x = 0, pos_z = 0\<rparr>,
         hasTrafficLight = True, connectedRoads = [''main-h1'', ''main-v1''], inter_size = 10\<rparr>)
        \<lparr>phaseTimer := 8 / 5, phaseOffset := 8 / 5\<rparr>),
     (''intersection-1-2'', (new_TrafficLight
        \<lparr>inter_id = ''intersection-1-2'', inter_position = \<lparr>pos_x = 0, pos_z = 80\<rparr>,
         hasTrafficLight = True, connectedRoads = [''main-h2'', ''main-v1''], inter_size = 10\<rparr>)
        \<lparr>phaseTimer := 8 / 5, phaseOffset := 8 / 5\<rparr>)]"
  unfolding horizontalPass_def
  apply (simp add: waveH_city city_lights_speed)
  apply (simp add: mainVIntersections_def applyCalls_def city_lights_lights signaled_intersections
      getPosition_def new_TrafficLight_def js_rem_small setPhaseOffset_def total_cycle phases_def)
  done

lemma horizontalPass_speed:
  "greenWaveSpeed (horizontalPass city_lights) = 50" "baseCycleTime (horizontalPass city_lights) = 26"
  by (simp_all add: horizontalPass_def city_lights_speed)

lemma waveV_city:
  "wavePass pos_z 50 26 13 (mainVIntersections (horizontalPass city_lights)) =
    [(''intersection-1-0'', 13, 13), (''intersection-1-1'', 73 / 5, 73 / 5),
     (''intersection-1-2'', 81 / 5, 81 / 5)]"
  unfolding mainV_after
  by (simp add: getPosition_def new_TrafficLight_def wavePass_def Let_def js_rem_small)

text \<open>
  C4, as amended. A pass of the green wave over a group sorted by its coordinate calls
  \<open>setPhaseOffset\<close> on the lights of the group in order: on the first with the start
  value of the pass, on each later one with the cumulative offset of the light before it
  plus the coordinate distance between the two divided by the wave speed, taken modulo
  the cycle. So for three lights spaced evenly by \<open>s > 0\<close> the cumulative offsets are
  \<open>start\<close>, \<open>start + s / speed\<close> and \<open>start + 2 s / speed\<close>, strictly
  increasing. In the city the wave speed is 50 and the cycle 26 seconds; the horizontal
  pass starts at 0 and the vertical pass at 13. Both passes take main-by-main crossings
  only. The vertical pass takes the three crossings of the middle column \<open>x = 0\<close> in
  the order of \<open>z\<close> and gives them 13, 14.6 and 16.2; of the horizontal pass the two
  outer crossings of the middle row keep 0 and 3.2; every other light, among them all
  twelve main-by-side crossings, is left at offset 0 in phase 0.
\<close>

theorem C4_green_wave:
  assumes "Suc k < length es"
    and "coord (getPosition lb) = coord (getPosition la) + s"
    and "coord (getPosition lc) = coord (getPosition lb) + s"
    and "0 < s" and "0 < spd"
  shows "map fst (wavePass coord spd cycle start es) = map fst es
    \<and> wavePass coord spd cycle start es ! 0 = (fst (es ! 0), start, start)
    \<and> fst (snd (wavePass coord spd cycle start es ! Suc k))
        = fst (snd (wavePass coord spd cycle start es ! k))
          + \<bar>coord (getPosition (snd (es ! Suc k))) - coord (getPosition (snd (es ! k)))\<bar> / spd
    \<and> snd (snd (wavePass coord spd cycle start es ! Suc k))
        = js_rem (fst (snd (wavePass coord spd cycle start es ! Suc k))) cycle
    \<and> wavePass coord spd cycle start [(a, la), (b, lb), (c, lc)] =
          [(a, start, start),
           (b, start + s / spd, js_rem (start + s / spd) cycle),
           (c, start + s / spd + s / spd, js_rem (start + s / spd + s / spd) cycle)]
    \<and> start < start + s / spd \<and> start + s / spd < start + s / spd + s / spd
    \<and> applyGreenWave tm = verticalPass (horizontalPass tm)
    \<and> greenWaveSpeed city_lights = 50 \<and> baseCycleTime city_lights = 26
    \<and> baseCycleTime (horizontalPass city_lights) / 2 = 13
    \<and> map (\<lambda>(k, l). (k, pos_x (getPosition l), pos_z (getPosition l)))
          (mainVIntersections (horizontalPass city_lights))
        = [(''intersection-1-0'', 0, -80), (''intersection-1-1'', 0, 0),
           (''intersection-1-2'', 0, 80)]
    \<and> wavePass pos_z 50 26 13 (mainVIntersections (horizontalPass city_lights))
        = [(''intersection-1-0'', 13, 13), (''intersection-1-1'', 73 / 5, 73 / 5),
           (''intersection-1-2'', 81 / 5, 81 / 5)]
    \<and> map (\<lambda>(k, l). (k, pos_x (getPosition l), pos_z (getPosition l), phaseOffset l,
                      currentPhaseIndex l, phaseTimer l))
          (trafficLights city_TrafficManager)
        = [(''intersection-0-0'', -80, -80, 0, 0, 0),
           (''intersection-0-1'', -80, 0, 0, 0, 0),
           (''intersection-0-2'', -80, 80, 0, 0, 0),
           (''intersection-1-0'', 0, -80, 13, 3, 0),
           (''intersection-1-1'', 0, 0, 73 / 5, 3, 8 / 5),
           (''intersection-1-2'', 0, 80, 81 / 5, 3, 16 / 5),
           (''intersection-2-0'', 80, -80, 0, 0, 0),
           (''intersection-2-1'', 80, 0, 16 / 5, 0, 16 / 5),
           (''intersection-2-2'', 80, 80, 0, 0, 0),
           (''cross-v0-sh0'', -80, -40, 0, 0, 0),
           (''cross-v0-sh1'', -80, 40, 0, 0, 0),
           (''cross-h0-sv0'', -40, -80, 0, 0, 0),
           (''cross-h0-sv1'', 40, -80, 0, 0, 0),
           (''cross-v1-sh0'', 0, -40, 0, 0, 0),
           (''cross-v1-sh1'', 0, 40, 0, 0, 0),
           (''cross-h1-sv0'', -40, 0, 0, 0, 0),
           (''cross-h1-sv1'', 40, 0, 0, 0, 0),
           (''cross-v2-sh0'', 80, -40, 0, 0, 0),
           (''cross-v2-sh1'', 80, 40, 0, 0, 0),
           (''cross-h2-sv0'', -40, 80, 0, 0, 0),
           (''cross-h2-sv1'', 40, 80, 0, 0, 0)]"
proof -
  from assms(1) obtain i l rest where es: "es = (i, l) # rest" by (cases es) auto
  have ids: "map fst (wavePass coord spd cycle start es) = map fst es"
    by (simp add: es wavePass_def waveCalls_ids)
  have first: "wavePass coord spd cycle start es ! 0 = (fst (es ! 0), start, start)"
    by (simp add: es wavePass_def)
  note step = wavePass_next [OF assms(1), of coord spd cycle start]
  note three = wavePass_three [OF assms(2) assms(3) assms(4), of spd cycle start a b c]
  from assms(4) assms(5) have "0 < s / spd" by simp
  then have incr: "start < start + s / spd" "start + s / spd < start + s / spd + s / spd"
    by simp_all
  have half: "baseCycleTime (horizontalPass city_lights) / 2 = 13"
    by (simp add: horizontalPass_speed)
  have vgroup: "map (\<lambda>(k, l). (k, pos_x (getPosition l), pos_z (getPosition l)))
          (mainVIntersections (horizontalPass city_lights))
        = [(''intersection-1-0'', 0, -80), (''intersection-1-1'', 0, 0),
           (''intersection-1-2'', 0, 80)]"
    unfolding mainV_after by (simp add: getPosition_def new_TrafficLight_def)
  from ids first step three incr half vgroup waveV_city city_final city_lights_speed
  show ?thesis by (simp only: applyGreenWave_def simp_thms)
qed

theorem C4_green_wave_witness:
  "Suc 0 < length (mainVIntersections (horizontalPass city_lights))
   \<and> pos_z (getPosition (snd (mainVIntersections (horizontalPass city_lights) ! 1)))
       = pos_z (getPosition (snd (mainVIntersections (horizontalPass city_lights) ! 0))) + 80
   \<and> pos_z (getPosition (snd (mainVIntersections (horizontalPass city_lights) ! 2)))
       = pos_z (getPosition (snd (mainVIntersections (horizontalPass city_lights) ! 1))) + 80
   \<and> (0::real) < 80 \<and> (0::real) < 50
   \<and> wavePass pos_z 50 26 13 (mainVIntersections (horizontalPass city_lights))
       = [(''intersection-1-0'', 13, 13),
          (''intersection-1-1'', 13 + 80 / 50, js_rem (13 + 80 / 50) 26),
          (''intersection-1-2'', 13 + 80 / 50 + 80 / 50, js_rem (13 + 80 / 50 + 80 / 50) 26)]
   \<and> (13::real) < 13 + 80 / 50 \<and> (13::real) + 80 / 50 < 13 + 80 / 50 + 80 / 50"
proof -
  let ?es = "mainVIntersections (horizontalPass city_lights)"
  have len: "Suc 0 < length ?es" unfolding mainV_after by simp
  have b: "pos_z (getPosition (snd (?es ! 1))) = pos_z (getPosition (snd (?es ! 0))) + 80"
    unfolding mainV_after by (simp add: getPosition_def new_TrafficLight_def)
  have c: "pos_z (getPosition (snd (?es ! 2))) = pos_z (getPosition (snd (?es ! 1))) + 80"
    unfolding mainV_after by (simp add: getPosition_def new_TrafficLight_def)
  have s: "(0::real) < 80" and v: "(0::real) < 50" by simp_all
  have es: "[(''intersection-1-0'', snd (?es ! 0)), (''intersection-1-1'', snd (?es ! 1)),
             (''intersection-1-2'', snd (?es ! 2))] = ?es"
    unfolding mainV_after by simp
  from C4_green_wave [OF len b c s v, where cycle = 26 and start = 13
      and a = "''intersection-1-0''" and b = "''intersection-1-1''"
      and c = "''intersection-1-2''"]
  have "wavePass pos_z 50 26 13 ?es
       = [(''intersection-1-0'', 13, 13),
          (''intersection-1-1'', 13 + 80 / 50, js_rem (13 + 80 / 50) 26),
          (''intersection-1-2'', 13 + 80 / 50 + 80 / 50, js_rem (13 + 80 / 50 + 80 / 50) 26)]"
    unfolding es by blast
  with len b c show ?thesis by simp
qed

text \<open>
  C4 as stated fails in the city. The group of the horizontal pass is not a row: besides
  the three crossings of the middle row \<open>z = 0\<close> it holds \<open>intersection-1-0\<close> and
  \<open>intersection-1-2\<close>, which lie at \<open>z = -80\<close> and \<open>z = 80\<close>, and it lacks the
  signaled crossings \<open>cross-h1-sv0\<close> and \<open>cross-h1-sv1\<close> of that row. The cumulative
  offsets of the pass are 0, 1.6, 1.6, 1.6, 3.2, which do not increase strictly.
\<close>

theorem C4_green_wave_counterexample:
  "map fst (mainHIntersections city_lights) =
     [''intersection-0-1'', ''intersection-1-0'', ''intersection-1-1'', ''intersection-1-2'',
      ''intersection-2-1'']
   \<and> map (pos_z \<circ> getPosition \<circ> snd) (mainHIntersections city_lights) = [0, -80, 0, 80, 0]
   \<and> map (fst \<circ> snd) (wavePass pos_x (greenWaveSpeed city_lights) (baseCycleTime city_lights) 0
          (mainHIntersections city_lights)) = [0, 8 / 5, 8 / 5, 8 / 5, 16 / 5]
   \<and> ''cross-h1-sv0'' \<in> set (map fst (trafficLights city_lights))
   \<and> ''cross-h1-sv0'' \<notin> set (map fst (mainHIntersections city_lights))"
proof -
  from mainH_city
  have "map (fst \<circ> (\<lambda>(k, l). (k, pos_x (getPosition l), pos_z (getPosition l))))
          (mainHIntersections city_lights) =
     [''intersection-0-1'', ''intersection-1-0'', ''intersection-1-1'', ''intersection-1-2'',
      ''intersection-2-1'']"
    unfolding map_map [symmetric] by simp
  then have ids: "map fst (mainHIntersections city_lights) =
     [''intersection-0-1'', ''intersection-1-0'', ''intersection-1-1'', ''intersection-1-2'',
      ''intersection-2-1'']"
    by (simp add: comp_def case_prod_beta)
  from mainH_city
  have "map ((snd \<circ> snd) \<circ> (\<lambda>(k, l). (k, pos_x (getPosition l), pos_z (getPosition l))))
          (mainHIntersections city_lights) = [0, -80, 0, 80, 0]"
    unfolding map_map [symmetric] by simp
  then have zs: "map (pos_z \<circ> getPosition \<circ> snd) (mainHIntersections city_lights)
      = [0, -80, 0, 80, 0]"
    by (simp add: comp_def case_prod_beta)
  have cums: "map (fst \<circ> snd) (wavePass pos_x (greenWaveSpeed city_lights)
      (baseCycleTime city_lights) 0 (mainHIntersections city_lights)) = [0, 8 / 5, 8 / 5, 8 / 5, 16 / 5]"
    by (simp add: city_lights_speed waveH_city)
  have mem: "''cross-h1-sv0'' \<in> set (map fst (trafficLights city_lights))"
    unfolding city_lights_ids by simp
  have nmem: "''cross-h1-sv0'' \<notin> set (map fst (mainHIntersections city_lights))"
    unfolding ids by simp
  from ids zs cums mem nmem show ?thesis by blast
qed

text \<open>The lights of the city after the green wave, in full.\<close>

lemma city_TrafficManager_lights:
  "trafficLights city_TrafficManager =
    [(''intersection-0-0'',
      \<lparr>intersection =
         \<lparr>inter_id = ''intersection-0-0'', inter_position = \<lparr>pos_x = -80, pos_z = -80\<rparr>,
          hasTrafficLight = True, connectedRoads = [''main-h0'', ''main-v0''], inter_size = 10\<rparr>,
       currentPhaseIndex = 0, phaseTimer = 0, phaseOffset = 0\<rparr>),
     (''intersection-0-1'',
      \<lparr>intersection =
         \<lparr>inter_id = ''intersection-0-1'', inter_position = \<lparr>pos_x = -80, pos_z = 0\<rparr>,
          hasTrafficLight = True, connectedRoads = [''main-h1'', ''main-v0''], inter_size = 10\<rparr>,
       currentPhaseIndex = 0, phaseTimer = 0, phaseOffset = 0\<rparr>),
     (''intersection-0-2'',
      \<lparr>intersection =
         \<lparr>inter_id = ''intersection-0-2'', inter_position = \<lparr>pos_x = -80, pos_z = 80\<rparr>,
          hasTrafficLight = True, connectedRoads = [''main-h2'', ''main-v0''], inter_size = 10\<rparr>,
       currentPhaseIndex = 0, phaseTimer = 0, phaseOffset = 0\<rparr>),
     (''intersection-1-0'',
      \<lparr>intersection =
         \<lparr>inter_id = ''intersection-1-0'', inter_position = \<lparr>pos_x = 0, pos_z = -80\<rparr>,
          hasTrafficLight = True, connectedRoads = [''main-h0'', ''main-v1''], inter_size = 10\<rparr>,
       currentPhaseIndex = 3, phaseTimer = 0, phaseOffset = 13\<rparr>),
     (''intersection-1-1'',
      \<lparr>intersection =
         \<lparr>inter_id = ''intersection-1-1'', inter_position = \<lparr>pos_x = 0, pos_z = 0\<rparr>,
          hasTrafficLight = True, connectedRoads = [''main-h1'', ''main-v1''], inter_size = 10\<rparr>,
       currentPhaseIndex = 3, phaseTimer = 8 / 5, phaseOffset = 73 / 5\<rparr>),
     (''intersection-1-2'',
      \<lparr>intersection =
         \<lparr>inter_id = ''intersection-1-2'', inter_position = \<lparr>pos_x = 0, pos_z = 80\<rparr>,
          hasTrafficLight = True, connectedRoads = [''main-h2'', ''main-v1''], inter_size = 10\<rparr>,
       currentPhaseIndex = 3, phaseTimer = 16 / 5, phaseOffset = 81 / 5\<rparr>),
     (''intersection-2-0'',
      \<lparr>intersection =
         \<lparr>inter_id = ''intersection-2-0'', inter_position = \<lparr>pos_x = 80, pos_z = -80\<rparr>,
          hasTrafficLight = True, connectedRoads = [''main-h0'', ''main-v2''], inter_size = 10\<rparr>,
       currentPhaseIndex = 0, phaseTimer = 0, phaseOffset = 0\<rparr>),
     (''intersection-2-1'',
      \<lparr>intersection =
         \<lparr>inter_id = ''intersection-2-1'', inter_position = \<lparr>pos_x = 80, pos_z = 0\<rparr>,
          hasTrafficLight = True, connectedRoads = [''main-h1'', ''main-v2''], inter_size = 10\<rparr>,
       currentPhaseIndex = 0, phaseTimer = 16 / 5, phaseOffset = 16 / 5\<rparr>),
     (''intersection-2-2'',
      \<lparr>intersection =
         \<lparr>inter_id = ''intersection-2-2'', inter_position = \<lparr>pos_x = 80, pos_z = 80\<rparr>,
          hasTrafficLight = True, connectedRoads = [''main-h2'', ''main-v2''], inter_size = 10\<rparr>,
       currentPhaseIndex = 0, phaseTimer = 0, phaseOffset = 0\<rparr>),
     (''cross-v0-sh0'',
      \<lparr>intersection =
         \<lparr>inter_id = ''cross-v0-sh0'', inter_position = \<lparr>pos_x = -80, pos_z = -40\<rparr>,
          hasTrafficLight = True, connectedRoads = [''main-v0'', ''side-h0''], inter_size = 10\<rparr>,
       currentPhaseIndex = 0, phaseTimer = 0, phaseOffset = 0\<rparr>),
     (''cross-v0-sh1'',
      \<lparr>intersection =
         \<lparr>inter_id = ''cross-v0-sh1'', inter_position = \<lparr>pos_x = -80, pos_z = 40\<rparr>,
          hasTrafficLight = True, connectedRoads = [''main-v0'', ''side-h1''], inter_size = 10\<rparr>,
       currentPhaseIndex = 0, phaseTimer = 0, phaseOffset = 0\<rparr>),
     (''cross-h0-sv0'',
      \<lparr>intersection =
         \<lparr>inter_id = ''cross-h0-sv0'', inter_position = \<lparr>pos_x = -40, pos_z = -80\<rparr>,
          hasTrafficLight = True, connectedRoads = [''main-h0'', ''side-v0''], inter_size = 10\<rparr>,
       currentPhaseIndex = 0, phaseTimer = 0, phaseOffset = 0\<rparr>),
     (''cross-h0-sv1'',
      \<lparr>intersection =
         \<lparr>inter_id = ''cross-h0-sv1'', inter_position = \<lparr>pos_x = 40, pos_z = -80\<rparr>,
          hasTrafficLight = True, connectedRoads = [''main-h0'', ''side-v1''], inter_size = 10\<rparr>,
       currentPhaseIndex = 0, phaseTimer = 0, phaseOffset = 0\<rparr>),
     (''cross-v1-sh0'',
      \<lparr>intersection =
         \<lparr>inter_id = ''cross-v1-sh0'', inter_position = \<lparr>pos_x = 0, pos_z = -40\<rparr>,
          hasTrafficLight = True, connectedRoads = [''main-v1'', ''side-h0''], inter_size = 10\<rparr>,
       currentPhaseIndex = 0, phaseTimer = 0, phaseOffset = 0\<rparr>),
     (''cross-v1-sh1'',
      \<lparr>intersection =
         \<lparr>inter_id = ''cross-v1-sh1'', inter_position = \<lparr>pos_x = 0, pos_z = 40\<rparr>,
          hasTrafficLight = True, connectedRoads = [''main-v1'', ''side-h1''], inter_size = 10\<rparr>,
       currentPhaseIndex = 0, phaseTimer = 0, phaseOffset = 0\<rparr>),
     (''cross-h1-sv0'',
      \<lparr>intersection =
         \<lparr>inter_id = ''cross-h1-sv0'', inter_position = \<lparr>pos_x = -40, pos_z = 0\<rparr>,
          hasTrafficLight = True, connectedRoads = [''main-h1'', ''side-v0''], inter_size = 10\<rparr>,
       currentPhaseIndex = 0, phaseTimer = 0, phaseOffset = 0\<rparr>),
     (''cross-h1-sv1'',
      \<lparr>intersection =
         \<lparr>inter_id = ''cross-h1-sv1'', inter_position = \<lparr>pos_x = 40, pos_z = 0\<rparr>,
          hasTrafficLight = True, connectedRoads = [''main-h1'', ''side-v1''], inter_size = 10\<rparr>,
       currentPhaseIndex = 0, phaseTimer = 0, phaseOffset = 0\<rparr>),
     (''cross-v2-sh0'',
      \<lparr>intersection =
         \<lparr>inter_id = ''cross-v2-sh0'', inter_position = \<lparr>pos_x = 80, pos_z = -40\<rparr>,
          hasTrafficLight = True, connectedRoads = [''main-v2'', ''side-h0''], inter_size = 10\<rparr>,
       currentPhaseIndex = 0, phaseTimer = 0, phaseOffset = 0\<rparr>),
     (''cross-v2-sh1'',
      \<lparr>intersection =
         \<lparr>inter_id = ''cross-v2-sh1'', inter_position = \<lparr>pos_x = 80, pos_z = 40\<rparr>,
          hasTrafficLight = True, connectedRoads = [''main-v2'', ''side-h1''], inter_size = 10\<rparr>,
       currentPhaseIndex = 0, phaseTimer = 0, phaseOffset = 0\<rparr>),
     (''cross-h2-sv0'',
      \<lparr>intersection =
         \<lparr>inter_id = ''cross-h2-sv0'', inter_position = \<lparr>pos_x = -40, pos_z = 80\<rparr>,
          hasTrafficLight = True, connectedRoads = [''main-h2'', ''side-v0''], inter_size = 10\<rparr>,
       currentPhaseIndex = 0, phaseTimer = 0, phaseOffset = 0\<rparr>),
     (''cross-h2-sv1'',
      \<lparr>intersection =
         \<lparr>inter_id = ''cross-h2-sv1'', inter_position = \<lparr>pos_x = 40, pos_z = 80\<rparr>,
          hasTrafficLight = True, connectedRoads = [''main-h2'', ''side-v1''], inter_size = 10\<rparr>,
       currentPhaseIndex = 0, phaseTimer = 0, phaseOffset = 0\<rparr>)]"
  unfolding city_TrafficManager_def createTrafficLights_def city_lights_def [symmetric]
  unfolding applyGreenWave_def verticalPass_def horizontalPass_def
  apply (simp add: waveH_city city_lights_speed)
  apply (simp add: mainVIntersections_def applyCalls_def city_lights_lights signaled_intersections
      getPosition_def new_TrafficLight_def wavePass_def Let_def js_rem_small
      setPhaseOffset_def total_cycle phases_def)
  done

section \<open>The stop query\<close>

lemma sqrt_64: "sqrt 64 = 8"
  by (rule real_sqrt_unique) simp_all

lemma sqrt_less_pos: "0 < b \<Longrightarrow> sqrt a < b \<longleftrightarrow> a < b\<^sup>2"
proof -
  assume "0 < b"
  then have "sqrt (b\<^sup>2) = b" by simp
  then have "sqrt a < b \<longleftrightarrow> sqrt a < sqrt (b\<^sup>2)" by simp
  then show ?thesis by (simp only: real_sqrt_less_iff)
qed

lemma less_sqrt_pos: "0 \<le> b \<Longrightarrow> b < sqrt a \<longleftrightarrow> b\<^sup>2 < a"
proof -
  assume "0 \<le> b"
  then have "sqrt (b\<^sup>2) = b" by simp
  then have "b < sqrt a \<longleftrightarrow> sqrt (b\<^sup>2) < sqrt a" by simp
  then show ?thesis by (simp only: real_sqrt_less_iff)
qed

lemma city_stop_x:
  "shouldStop city_TrafficManager \<lparr>pos_x = -48, pos_z = 0\<rparr> (pi / 2) 25
     = Inr (StopRequired 8 ''cross-h1-sv0'' Red \<lparr>pos_x = -32, pos_z = 0\<rparr>)"
  unfolding shouldStop_def city_TrafficManager_lights
  by (simp add: considerLight_def Let_def getPosition_def getIntersectionId_def sqrt_64
      less_sqrt_pos sqrt_less_pos power2_eq_square getApproachDirection_def getState_def
      phases_def getStopPosition_def)

lemma city_stop_z:
  "shouldStop city_TrafficManager \<lparr>pos_x = 0, pos_z = -8\<rparr> 0 25
     = Inr (StopRequired 8 ''intersection-1-1'' Red \<lparr>pos_x = 0, pos_z = -8\<rparr>)"
  unfolding shouldStop_def city_TrafficManager_lights
  by (simp add: considerLight_def Let_def getPosition_def getIntersectionId_def sqrt_64
      less_sqrt_pos sqrt_less_pos power2_eq_square getApproachDirection_def getState_def
      phases_def getStopPosition_def)

text \<open>
  C2 fails for an approach along the x axis. In the city as built, the light at the
  crossing \<open>cross-h1-sv0\<close>, at (-40, 0), is in its first phase: north-south green,
  east-west red. A vehicle at (-48, 0), 8 units before the centre on the x axis and
  heading at it (heading \<open>\<pi>/2\<close>), with a lookahead of 25, is told to stop at distance
  8, but at the stop position (-32, 0): 8 units past the centre, not the point 8 units
  before it where the vehicle stands. The approach is classified as \<open>west\<close>, and for
  \<open>west\<close> the stop position is the centre plus 8 in x. Along the z axis the same
  query answers as claimed: the light at (0, 0) is red for north and south, and the
  vehicle at (0, -8) heading 0 gets the stop position (0, -8).
\<close>

theorem C2_stop_position_far_side:
  "shouldStop city_TrafficManager \<lparr>pos_x = -48, pos_z = 0\<rparr> (pi / 2) 25
     = Inr (StopRequired 8 ''cross-h1-sv0'' Red \<lparr>pos_x = -32, pos_z = 0\<rparr>)
   \<and> getApproachDirection \<lparr>pos_x = -48, pos_z = 0\<rparr> \<lparr>pos_x = -40, pos_z = 0\<rparr> (pi / 2) = West
   \<and> getStopPosition \<lparr>pos_x = -40, pos_z = 0\<rparr> West = \<lparr>pos_x = -32, pos_z = 0\<rparr>
   \<and> shouldStop city_TrafficManager \<lparr>pos_x = 0, pos_z = -8\<rparr> 0 25
     = Inr (StopRequired 8 ''intersection-1-1'' Red \<lparr>pos_x = 0, pos_z = -8\<rparr>)"
proof -
  have west: "getApproachDirection \<lparr>pos_x = -48, pos_z = 0\<rparr> \<lparr>pos_x = -40, pos_z = 0\<rparr> (pi / 2)
      = West"
    by (simp add: getApproachDirection_def)
  have stop: "getStopPosition \<lparr>pos_x = -40, pos_z = 0\<rparr> West = \<lparr>pos_x = -32, pos_z = 0\<rparr>"
    by (simp add: getStopPosition_def)
  from city_stop_x west stop city_stop_z show ?thesis by blast
qed

section \<open>The collision response of the first manager\<close>






section \<open>The agent's update\<close>

text \<open>
  C10. An agent whose mesh is still \<open>null\<close> is returned unchanged by \<open>update\<close>,
  whatever the time step, the other vehicles, the traffic manager, the road network and
  the random numbers: every field keeps its value, and nothing is thrown.
\<close>

theorem C10_update_before_spawn:
  assumes "mesh v = None"
  shows "NPCVehicle_update trafficManager roadNetwork rnd1 rnd2 delta allVehicles v = Inr v"
  using assms by (simp add: NPCVehicle_update_def)

theorem C10_update_before_spawn_witness:
  "mesh (new_NPCVehicle 0) = None
   \<and> NPCVehicle_update (Some city_TrafficManager) (Some connector_network) 0 0 (1 / 60)
        [new_NPCVehicle 0, waiting_vehicle] (new_NPCVehicle 0)
       = Inr (new_NPCVehicle 0)"
proof -
  have m: "mesh (new_NPCVehicle 0) = None" by (simp add: new_NPCVehicle_def)
  from C10_update_before_spawn [OF m] m show ?thesis by simp
qed

lemma waiting_vehicle_checked:
  "checkTrafficLights (Some city_TrafficManager) waiting_vehicle
     = Inr (waiting_vehicle\<lparr>state := Stopping, stoppingDistance := 3\<rparr>)"
proof -
  have "position waiting_vehicle = \<lparr>pos_x = 0, pos_z = -8\<rparr>" "rotation waiting_vehicle = 0"
    by (simp_all add: waiting_vehicle_def new_NPCVehicle_def)
  then show ?thesis
    by (simp add: checkTrafficLights_def city_stop_z)
qed

lemma waiting_vehicle_ahead:
  "checkVehicleAhead [waiting_vehicle] (waiting_vehicle\<lparr>state := Stopping, stoppingDistance := 3\<rparr>)
     = waiting_vehicle\<lparr>state := Stopping, stoppingDistance := 3\<rparr>"
  by (simp add: checkVehicleAhead_def considerVehicle_def waiting_vehicle_def new_NPCVehicle_def)

lemma waiting_vehicle_state:
  "updateState 0.1 (waiting_vehicle\<lparr>state := Stopping, stoppingDistance := 3\<rparr>)
     = waiting_vehicle\<lparr>stoppingDistance := 3, waitTimer := 0\<rparr>"
  by (simp add: updateState_def waiting_vehicle_def new_NPCVehicle_def Let_def)

lemma waiting_vehicle_movement:
  "updateMovement None 0 0 0.1 (waiting_vehicle\<lparr>stoppingDistance := 3, waitTimer := 0\<rparr>)
     = Inr (waiting_vehicle\<lparr>stoppingDistance := 3, waitTimer := 0\<rparr>)"
  by (simp add: updateMovement_def speedControl_def followSegment_def keepWithinBounds_def
      moveForward_def waiting_vehicle_def new_NPCVehicle_def Let_def)

text \<open>
  C5 fails on the wait timer. In the city as built, the agent stands in state
  \<open>waiting\<close> at (0, -8) with 0.5 seconds on its timer, 8 units before the light of the
  middle crossing, which is red for it. In a tick of 0.1
  seconds the signal check finds the stop within 15 units and sets the state to
  \<open>stopping\<close>; \<open>updateState\<close> then takes the \<open>stopping\<close> branch, which moves the
  agent, at rest, to \<open>waiting\<close> again with the timer set to 0. The agent ends the tick
  waiting with target speed 0, but its timer is 0 and not 0.6.
\<close>

theorem C5_wait_timer_reset:
  "state waiting_vehicle = Waiting \<and> waitTimer waiting_vehicle = 0.5
   \<and> speed waiting_vehicle = 0
   \<and> shouldStop city_TrafficManager (position waiting_vehicle) (rotation waiting_vehicle) 25
       = Inr (StopRequired 8 ''intersection-1-1'' Red \<lparr>pos_x = 0, pos_z = -8\<rparr>)
   \<and> NPCVehicle_update (Some city_TrafficManager) None 0 0 0.1 [waiting_vehicle] waiting_vehicle
       = Inr (waiting_vehicle\<lparr>stoppingDistance := 3, waitTimer := 0, turnSignalTimer := 0.1\<rparr>)
   \<and> state (waiting_vehicle\<lparr>stoppingDistance := 3, waitTimer := 0, turnSignalTimer := 0.1\<rparr>)
       = Waiting
   \<and> targetSpeed (waiting_vehicle\<lparr>stoppingDistance := 3, waitTimer := 0, turnSignalTimer := 0.1\<rparr>)
       = 0
   \<and> waitTimer (waiting_vehicle\<lparr>stoppingDistance := 3, waitTimer := 0, turnSignalTimer := 0.1\<rparr>)
       \<noteq> waitTimer waiting_vehicle + 0.1"
proof -
  have fields: "state waiting_vehicle = Waiting" "waitTimer waiting_vehicle = 0.5"
    "speed waiting_vehicle = 0" "targetSpeed waiting_vehicle = 0"
    "position waiting_vehicle = \<lparr>pos_x = 0, pos_z = -8\<rparr>" "rotation waiting_vehicle = 0"
    "mesh waiting_vehicle \<noteq> None" "wheelRotation waiting_vehicle = 0"
    "turnSignalTimer waiting_vehicle = 0"
    by (simp_all add: waiting_vehicle_def new_NPCVehicle_def)
  have "NPCVehicle_update (Some city_TrafficManager) None 0 0 0.1 [waiting_vehicle] waiting_vehicle
       = Inr (waiting_vehicle\<lparr>stoppingDistance := 3, waitTimer := 0, turnSignalTimer := 0.1\<rparr>)"
    unfolding NPCVehicle_update_def
    by (simp add: fields waiting_vehicle_checked waiting_vehicle_ahead waiting_vehicle_state
        waiting_vehicle_movement updateVisuals_def updateTurnSignals_def Let_def)
  with fields city_stop_z show ?thesis by simp
qed

lemma pickNextSegment_keeps:
  "pickNextSegment roadNetwork rnd1 rnd2 v = Inr v' \<Longrightarrow>
   state v' = state v \<and> waitTimer v' = waitTimer v \<and> speed v' = speed v"
  by (auto simp: pickNextSegment_def Let_def split: option.splits if_splits)

lemma findNearestSegment_keeps:
  "state (findNearestSegment roadNetwork rnd1 rnd2 v) = state v
   \<and> waitTimer (findNearestSegment roadNetwork rnd1 rnd2 v) = waitTimer v
   \<and> speed (findNearestSegment roadNetwork rnd1 rnd2 v) = speed v"
  by (auto simp: findNearestSegment_def split: option.splits prod.splits)

lemma followSegment_keeps:
  assumes "followSegment roadNetwork rnd1 rnd2 delta v = Inr v'"
  shows "state v' = state v \<and> waitTimer v' = waitTimer v"
proof (cases "currentSegment v \<noteq> None")
  case False
  with assms show ?thesis
    by (cases "roadNetwork \<noteq> None") (auto simp: followSegment_def findNearestSegment_keeps)
next
  case True
  show ?thesis
  proof (cases "getTargetPointOnSegment v")
    case None
    with True assms show ?thesis by (simp add: followSegment_def)
  next
    case (Some target)
    define ad where "ad = normalizeAngle
      (atan2 (pos_x target - pos_x (position v)) (pos_z target - pos_z (position v)) - rotation v)"
    define v1 where "v1 = v\<lparr>turnSignal :=
                           (if \<bar>ad\<bar> > 0.3
                            then (if ad > 0 then Some Left else Some Right)
                            else None),
                         rotation := rotation v + ad * delta * turnSpeed v\<rparr>"
    define v2 where "v2 = v1\<lparr>segmentProgress := segmentProgress v1 + 0.05\<rparr>"
    define near where "near \<longleftrightarrow>
      sqrt ((pos_x target - pos_x (position v)) * (pos_x target - pos_x (position v))
            + (pos_z target - pos_z (position v)) * (pos_z target - pos_z (position v))) < 3"
    have k1: "state v1 = state v \<and> waitTimer v1 = waitTimer v" by (simp add: v1_def)
    then have k2: "state v2 = state v \<and> waitTimer v2 = waitTimer v" by (simp add: v2_def)
    have e: "followSegment roadNetwork rnd1 rnd2 delta v =
        (if near then (if segmentProgress v2 \<ge> 1 then pickNextSegment roadNetwork rnd1 rnd2 v2
                       else Inr v2)
         else Inr v1)"
      unfolding followSegment_def Let_def v2_def v1_def ad_def near_def
      by (simp only: True Some simp_thms if_True option.simps)
    from assms have r: "(if near
          then (if segmentProgress v2 \<ge> 1 then pickNextSegment roadNetwork rnd1 rnd2 v2
                else Inr v2)
          else Inr v1) = Inr v'"
      unfolding e .
    show ?thesis
    proof (cases near)
      case False
      with r have "v' = v1" by simp
      with k1 show ?thesis by simp
    next
      case near: True
      show ?thesis
      proof (cases "segmentProgress v2 \<ge> 1")
        case False
        with near r have "v' = v2" by simp
        with k2 show ?thesis by simp
      next
        case True
        with near r have "pickNextSegment roadNetwork rnd1 rnd2 v2 = Inr v'" by simp
        from pickNextSegment_keeps [OF this] k2 show ?thesis by simp
      qed
    qed
  qed
qed

lemma updateMovement_keeps:
  assumes "updateMovement roadNetwork rnd1 rnd2 delta v = Inr v'"
  shows "state v' = state v \<and> waitTimer v' = waitTimer v"
proof -
  from assms obtain v1 where
    f: "followSegment roadNetwork rnd1 rnd2 delta (speedControl delta v) = Inr v1"
    and r: "v' = moveForward delta (keepWithinBounds delta v1)"
    by (auto simp: updateMovement_def split: sum.splits)
  have "state (speedControl delta v) = state v \<and> waitTimer (speedControl delta v) = waitTimer v"
    by (simp add: speedControl_def Let_def)
  with followSegment_keeps [OF f] have "state v1 = state v \<and> waitTimer v1 = waitTimer v"
    by simp
  moreover have "state (moveForward delta (keepWithinBounds delta v1)) = state v1
      \<and> waitTimer (moveForward delta (keepWithinBounds delta v1)) = waitTimer v1"
    by (simp add: moveForward_def keepWithinBounds_def Let_def split: option.splits)
  ultimately show ?thesis using r by simp
qed

lemma checkVehicleAhead_keeps:
  "waitTimer (checkVehicleAhead allVehicles v) = waitTimer v
   \<and> speed (checkVehicleAhead allVehicles v) = speed v
   \<and> (state (checkVehicleAhead allVehicles v) = state v
        \<or> state (checkVehicleAhead allVehicles v) = Stopping)"
  by (auto simp: checkVehicleAhead_def Let_def split: option.splits prod.splits)

text \<open>
  The defect in general: an agent at rest in \<open>waiting\<close> that is told to stop within 15
  units ends every tick in \<open>waiting\<close> with its timer at 0.
\<close>

lemma waiting_timer_reset:
  assumes "mesh v \<noteq> None" and "state v = Waiting" and "speed v < 0.5"
    and "shouldStop tm \<lparr>pos_x = pos_x (position v), pos_z = pos_z (position v)\<rparr> (rotation v) 25
           = Inr (StopRequired d i a p)"
    and "d < 15"
    and "NPCVehicle_update (Some tm) roadNetwork rnd1 rnd2 delta allVehicles v = Inr v'"
  shows "state v' = Waiting \<and> waitTimer v' = 0"
proof -
  let ?v1 = "v\<lparr>state := Stopping, stoppingDistance := d - 5\<rparr>"
  let ?v2 = "checkVehicleAhead allVehicles ?v1"
  let ?v3 = "updateState delta ?v2"
  from assms(4) assms(5) have c: "checkTrafficLights (Some tm) v = Inr ?v1"
    by (simp add: checkTrafficLights_def)
  from checkVehicleAhead_keeps [of allVehicles ?v1]
  have s2: "state ?v2 = Stopping" "speed ?v2 = speed v" by auto
  with assms(3) have s3: "state ?v3 = Waiting" "waitTimer ?v3 = 0"
    by (simp_all add: updateState_def Let_def)
  from assms(1) assms(6) c obtain v4 where
    m: "updateMovement roadNetwork rnd1 rnd2 delta ?v3 = Inr v4"
    and r: "v' = updateTurnSignals delta (updateVisuals delta v4)"
    by (auto simp: NPCVehicle_update_def Let_def split: sum.splits)
  from updateMovement_keeps [OF m] s3 have "state v4 = Waiting" "waitTimer v4 = 0" by simp_all
  with r show ?thesis by (simp add: updateTurnSignals_def updateVisuals_def Let_def)
qed

text \<open>
  What holds of the claim: an agent at rest in \<open>waiting\<close> is not in \<open>waiting\<close> at
  the end of a tick only if the signal check of that tick reported that no stop is
  required.
\<close>

lemma waiting_left_only_without_stop:
  assumes "mesh v \<noteq> None" and "state v = Waiting" and "speed v < 0.5"
    and "NPCVehicle_update (Some tm) roadNetwork rnd1 rnd2 delta allVehicles v = Inr v'"
    and "state v' \<noteq> Waiting"
  shows "shouldStop tm \<lparr>pos_x = pos_x (position v), pos_z = pos_z (position v)\<rparr> (rotation v) 25
           = Inr NoStopRequired"
proof (rule ccontr)
  assume no: "\<not> ?thesis"
  from assms(1) assms(4) obtain v1 where c: "checkTrafficLights (Some tm) v = Inr v1"
    by (auto simp: NPCVehicle_update_def split: sum.splits)
  with no assms(2) have v1: "(state v1 = Waiting \<or> state v1 = Stopping)
      \<and> speed v1 = speed v"
    by (auto simp: checkTrafficLights_def split: sum.splits StopResult.splits if_splits)
  let ?v2 = "checkVehicleAhead allVehicles v1"
  let ?v3 = "updateState delta ?v2"
  from checkVehicleAhead_keeps [of allVehicles v1] v1
  have "(state ?v2 = Waiting \<or> state ?v2 = Stopping) \<and> speed ?v2 = speed v" by auto
  with assms(3) have s3: "state ?v3 = Waiting"
    by (auto simp: updateState_def Let_def)
  from assms(1) assms(4) c obtain v4 where
    m: "updateMovement roadNetwork rnd1 rnd2 delta ?v3 = Inr v4"
    and r: "v' = updateTurnSignals delta (updateVisuals delta v4)"
    by (auto simp: NPCVehicle_update_def Let_def split: sum.splits)
  from updateMovement_keeps [OF m] s3 have "state v4 = Waiting" by simp
  with r have "state v' = Waiting"
    by (simp add: updateTurnSignals_def updateVisuals_def Let_def)
  with assms(5) show False by simp
qed

end
